theory Spec2Isabelle
  imports Main
begin

section \<open>JavaScript values\<close>

text \<open>
  The module \<^verbatim>\<open>openapi-to-har.js\<close> works on a parsed OpenAPI document, that is
  on JSON data, on the value \<^verbatim>\<open>undefined\<close> that a missing property reads as, and on
  the built-in functions that every JavaScript value inherits from its prototype
  (\<^verbatim>\<open>constructor\<close>, \<^verbatim>\<open>toString\<close>, ...), which a property read with a key
  computed at run time can return.
  \<^item> A number is given by the string that JavaScript converts it to (the conversion is
    one-to-one on the numbers of JSON, \<^verbatim>\<open>-0\<close> apart, which is \<^verbatim>\<open>0\<close> here).
  \<^item> Strings are ASCII: \<^verbatim>\<open>toUpperCase\<close> and \<^verbatim>\<open>toLowerCase\<close> change the letters
    a-z and A-Z only.
  \<^item> An object is the list of its own properties in the order \<^verbatim>\<open>for ... in\<close> and
    \<^verbatim>\<open>Object.keys\<close> enumerate them; a key occurs once.
  \<^item> An array is the list of its elements, followed by the named properties that an
    assignment \<^verbatim>\<open>a.k = v\<close> has put on it (none after parsing).
  \<^item> A built-in function is given by its name; it has no enumerable property.
\<close>

datatype jv =
    JUndef
  | JNull
  | JBool bool
  | JNum string
  | JStr string
  | JArr "jv list" "(string \<times> jv) list"
  | JObj "(string \<times> jv) list"
  | JFun string

text \<open>Every failure of the module itself is a \<^verbatim>\<open>TypeError\<close> (a property read on
  \<^verbatim>\<open>undefined\<close> or \<^verbatim>\<open>null\<close>, a call of a method that the value does not have);
  the schema sampler, an external collaborator, raises errors of its own.
  \<open>Unmodelled\<close> is no exception of the code: it ends a run that reads further into
  the built-in objects of the JavaScript engine, or that assigns to an object which the
  document holds in two places, where this theory does not say what the code does.\<close>

datatype error = TypeError | SamplerError | Unmodelled

definition bindE :: "error + 'a \<Rightarrow> ('a \<Rightarrow> error + 'b) \<Rightarrow> error + 'b" where
  "bindE m f = (case m of Inl e \<Rightarrow> Inl e | Inr x \<Rightarrow> f x)"

fun foldE :: "('s \<Rightarrow> 'a \<Rightarrow> error + 's) \<Rightarrow> 'a list \<Rightarrow> 's \<Rightarrow> error + 's" where
  "foldE f [] s = Inr s"
| "foldE f (x # xs) s = bindE (f s x) (foldE f xs)"

subsection \<open>Numbers and strings\<close>

definition digit_char :: "nat \<Rightarrow> char" where
  "digit_char n = ''0123456789'' ! n"

fun show_nat :: "nat \<Rightarrow> string" where
  "show_nat n = (if n < 10 then [digit_char n] else show_nat (n div 10) @ [digit_char (n mod 10)])"

declare show_nat.simps [simp del]

definition upper_char :: "char \<Rightarrow> char" where
  "upper_char c =
     (case map_of (zip ''abcdefghijklmnopqrstuvwxyz'' ''ABCDEFGHIJKLMNOPQRSTUVWXYZ'') c of
        Some u \<Rightarrow> u | None \<Rightarrow> c)"

definition lower_char :: "char \<Rightarrow> char" where
  "lower_char c =
     (case map_of (zip ''ABCDEFGHIJKLMNOPQRSTUVWXYZ'' ''abcdefghijklmnopqrstuvwxyz'') c of
        Some l \<Rightarrow> l | None \<Rightarrow> c)"

definition upper :: "string \<Rightarrow> string" where
  "upper s = map upper_char s"

definition lower :: "string \<Rightarrow> string" where
  "lower s = map lower_char s"

text \<open>\<^verbatim>\<open>s.split(c)\<close>: the pieces between the occurrences of \<open>c\<close>, never an empty list.\<close>

fun split :: "char \<Rightarrow> string \<Rightarrow> string list" where
  "split c [] = [[]]"
| "split c (x # xs) =
     (if x = c then [] # split c xs
      else (case split c xs of [] \<Rightarrow> [[x]] | p # ps \<Rightarrow> (x # p) # ps))"

text \<open>\<^verbatim>\<open>s.replace(pat, repl)\<close> with a string pattern: the first occurrence of \<open>pat\<close>
  only, and in the replacement text \<^verbatim>\<open>$$\<close> stands for a dollar sign, \<^verbatim>\<open>$&\<close> for the
  matched text, \<^verbatim>\<open>$`\<close> for the text before the match and \<^verbatim>\<open>$'\<close> for the text after it.\<close>

fun find_sub :: "string \<Rightarrow> string \<Rightarrow> (string \<times> string) option" where
  "find_sub pat [] = (if pat = [] then Some ([], []) else None)"
| "find_sub pat (c # cs) =
     (if take (length pat) (c # cs) = pat then Some ([], drop (length pat) (c # cs))
      else map_option (\<lambda>(b, a). (c # b, a)) (find_sub pat cs))"

fun expand :: "string \<Rightarrow> string \<Rightarrow> string \<Rightarrow> string \<Rightarrow> string" where
  "expand m b a [] = []"
| "expand m b a [c] = [c]"
| "expand m b a (c # d # r) =
     (if c = CHR ''$'' then
        (if d = CHR ''$'' then CHR ''$'' # expand m b a r
         else if d = CHR ''&'' then m @ expand m b a r
         else if d = CHR 0x60 then b @ expand m b a r
         else if d = CHR 0x27 then a @ expand m b a r
         else c # expand m b a (d # r))
      else c # expand m b a (d # r))"

definition replace :: "string \<Rightarrow> string \<Rightarrow> string \<Rightarrow> string" where
  "replace s pat repl =
     (case find_sub pat s of
        None \<Rightarrow> s
      | Some (b, a) \<Rightarrow> b @ expand pat b a repl @ a)"

subsection \<open>Properties\<close>

fun arr_entries :: "nat \<Rightarrow> jv list \<Rightarrow> (string \<times> jv) list" where
  "arr_entries i [] = []"
| "arr_entries i (x # xs) = (show_nat i, x) # arr_entries (Suc i) xs"

text \<open>The own enumerable properties of a value, in enumeration order: the indices of an
  array come before its named properties, a string has its characters.\<close>

fun props_of :: "jv \<Rightarrow> (string \<times> jv) list" where
  "props_of (JObj ps) = ps"
| "props_of (JArr xs ps) = arr_entries 0 xs @ ps"
| "props_of (JStr s) = arr_entries 0 (map (\<lambda>c. JStr [c]) s)"
| "props_of _ = []"

text \<open>The \<^verbatim>\<open>length\<close> of an array and of a string, an own property that is not
  enumerated.\<close>

fun own_length :: "jv \<Rightarrow> jv option" where
  "own_length (JArr xs ps) = Some (JNum (show_nat (length xs)))"
| "own_length (JStr s) = Some (JNum (show_nat (length s)))"
| "own_length _ = None"

text \<open>The functions that every value inherits from \<^verbatim>\<open>Object.prototype\<close>, and the
  name of the function that \<^verbatim>\<open>constructor\<close> is.\<close>

definition object_methods :: "string list" where
  "object_methods =
     [''constructor'', ''toString'', ''toLocaleString'', ''valueOf'', ''hasOwnProperty'',
      ''isPrototypeOf'', ''propertyIsEnumerable'', ''__defineGetter__'', ''__defineSetter__'',
      ''__lookupGetter__'', ''__lookupSetter__'']"

fun constructor_name :: "jv \<Rightarrow> string" where
  "constructor_name (JArr xs ps) = ''Array''"
| "constructor_name (JStr s) = ''String''"
| "constructor_name (JNum n) = ''Number''"
| "constructor_name (JBool b) = ''Boolean''"
| "constructor_name (JFun f) = ''Function''"
| "constructor_name _ = ''Object''"

text \<open>The property names that the module itself reads, by name or by the index
  \<^verbatim>\<open>0\<close>. None of them is a member of a built-in prototype, and none but
  \<^verbatim>\<open>name\<close> is a property of a built-in function.\<close>

definition module_keys :: "string list" where
  "module_keys =
     [''$ref'', ''schema'', ''type'', ''in'', ''name'', ''default'', ''example'',
      ''parameters'', ''requestBody'', ''content'', ''consumes'', ''produces'', ''security'',
      ''securityDefinitions'', ''components'', ''securitySchemes'', ''scheme'',
      ''description'', ''servers'', ''url'', ''schemes'', ''basePath'', ''host'', ''paths'',
      ''0'']"

definition is_index :: "string \<Rightarrow> bool" where
  "is_index k \<longleftrightarrow> k \<noteq> [] \<and> set k \<subseteq> set ''0123456789''"

text \<open>What a read of \<open>k\<close> gives when \<open>k\<close> is no own property of the value. A
  plain object inherits the members of \<^verbatim>\<open>Object.prototype\<close>: its functions, and the
  accessor \<^verbatim>\<open>__proto__\<close>, which leads into the engine. An array, a string, a number,
  a boolean and a function inherit those functions too (some of them overridden by a
  function of the same name) and further members that depend on the engine: for them only
  the keys that the module reads itself and the array indices are known to be absent.\<close>

fun inherited :: "jv \<Rightarrow> string \<Rightarrow> error + jv" where
  "inherited (JObj ps) k =
     (if k \<in> set object_methods
      then Inr (JFun (if k = ''constructor'' then ''Object'' else k))
      else if k = ''__proto__'' then Inl Unmodelled
      else Inr JUndef)"
| "inherited (JFun f) k =
     (if k = ''name'' then Inr (JStr f)
      else if k \<in> set module_keys then Inr JUndef
      else Inl Unmodelled)"
| "inherited v k =
     (if k \<in> set object_methods
      then Inr (JFun (if k = ''constructor'' then constructor_name v else k))
      else if k \<in> set module_keys \<or> is_index k then Inr JUndef
      else Inl Unmodelled)"

text \<open>\<^verbatim>\<open>v[k]\<close> and \<^verbatim>\<open>v.k\<close>: a \<^verbatim>\<open>TypeError\<close> on \<^verbatim>\<open>undefined\<close> and \<^verbatim>\<open>null\<close>;
  else the own property, else the inherited one, else \<^verbatim>\<open>undefined\<close>.\<close>

fun get :: "jv \<Rightarrow> string \<Rightarrow> error + jv" where
  "get JUndef k = Inl TypeError"
| "get JNull k = Inl TypeError"
| "get v k =
     (case map_of (props_of v) k of
        Some x \<Rightarrow> Inr x
      | None \<Rightarrow>
          (case own_length v of
             Some n \<Rightarrow> if k = ''length'' then Inr n else inherited v k
           | None \<Rightarrow> inherited v k))"

text \<open>The keys that \<^verbatim>\<open>for (k in v)\<close> visits (none for \<^verbatim>\<open>undefined\<close> and \<^verbatim>\<open>null\<close>),
  and the values \<^verbatim>\<open>v[k]\<close> read at these keys.\<close>

definition forin :: "jv \<Rightarrow> string list" where
  "forin v = map fst (props_of v)"

definition forin_values :: "jv \<Rightarrow> jv list" where
  "forin_values v = map snd (props_of v)"

text \<open>\<^verbatim>\<open>Object.keys(v)\<close> raises on \<^verbatim>\<open>undefined\<close> and \<^verbatim>\<open>null\<close>.\<close>

fun object_keys :: "jv \<Rightarrow> error + string list" where
  "object_keys JUndef = Inl TypeError"
| "object_keys JNull = Inl TypeError"
| "object_keys v = Inr (forin v)"

fun truthy :: "jv \<Rightarrow> bool" where
  "truthy JUndef = False"
| "truthy JNull = False"
| "truthy (JBool b) = b"
| "truthy (JNum n) = (n \<noteq> ''0'')"
| "truthy (JStr s) = (s \<noteq> [])"
| "truthy _ = True"

fun is_function :: "jv \<Rightarrow> bool" where
  "is_function (JFun f) = True"
| "is_function _ = False"

fun join :: "string \<Rightarrow> string list \<Rightarrow> string" where
  "join sep [] = []"
| "join sep [x] = x"
| "join sep (x # y # ys) = x @ sep @ join sep (y # ys)"

text \<open>\<^verbatim>\<open>v + ''\<close>, the conversion to a string that \<^verbatim>\<open>+\<close> with a string operand,
  \<^verbatim>\<open>replace\<close> and a computed property name \<^verbatim>\<open>obj[v]\<close> apply. An object or an array
  is converted by its \<^verbatim>\<open>toString\<close> method: the inherited one, unless the value has
  an own property of that name, which in JSON data is no function, and then the conversion
  raises a \<^verbatim>\<open>TypeError\<close>. The inherited method of an array joins the converted
  elements (\<^verbatim>\<open>undefined\<close> and \<^verbatim>\<open>null\<close> as the empty string) with commas, unless
  \<^verbatim>\<open>join\<close> is an own property. A built-in function gives its source text.\<close>

fun tostr :: "jv \<Rightarrow> error + string" and tostrs :: "jv list \<Rightarrow> error + string list" where
  "tostr JUndef = Inr ''undefined''"
| "tostr JNull = Inr ''null''"
| "tostr (JBool b) = Inr (if b then ''true'' else ''false'')"
| "tostr (JNum n) = Inr n"
| "tostr (JStr s) = Inr s"
| "tostr (JArr xs ps) =
     (if map_of ps ''toString'' \<noteq> None then Inl TypeError
      else if map_of ps ''join'' \<noteq> None then Inr ''[object Array]''
      else bindE (tostrs xs) (\<lambda>ss. Inr (join '','' ss)))"
| "tostr (JObj ps) =
     (if map_of ps ''toString'' \<noteq> None then Inl TypeError else Inr ''[object Object]'')"
| "tostr (JFun f) = Inr (''function '' @ f @ ''() { [native code] }'')"
| "tostrs [] = Inr []"
| "tostrs (x # xs) =
     bindE (if x = JUndef \<or> x = JNull then Inr [] else tostr x) (\<lambda>s.
     bindE (tostrs xs) (\<lambda>ss. Inr (s # ss)))"

text \<open>\<^verbatim>\<open>v.toUpperCase()\<close> and \<^verbatim>\<open>v.toLowerCase()\<close>: only a string has these methods.\<close>

fun toUpperCase :: "jv \<Rightarrow> error + string" where
  "toUpperCase (JStr s) = Inr (upper s)"
| "toUpperCase _ = Inl TypeError"

fun toLowerCase :: "jv \<Rightarrow> error + string" where
  "toLowerCase (JStr s) = Inr (lower s)"
| "toLowerCase _ = Inl TypeError"

text \<open>The receiver of a string method (\<^verbatim>\<open>toLowerCase\<close>, \<^verbatim>\<open>split\<close>): the call raises
  unless it is a string.\<close>

fun the_string :: "jv \<Rightarrow> error + string" where
  "the_string (JStr s) = Inr s"
| "the_string _ = Inl TypeError"

text \<open>\<^verbatim>\<open>typeof v === 'string' && /^#/.test(v)\<close>\<close>

fun local_ref :: "jv \<Rightarrow> string option" where
  "local_ref (JStr (c # cs)) = (if c = CHR ''#'' then Some (c # cs) else None)"
| "local_ref _ = None"

section \<open>Reference Resolver\<close>

text \<open>\<^verbatim>\<open>recursive(obj, index)\<close> of \<^verbatim>\<open>resolveRef\<close>, on the parts from \<open>index\<close> on.
  With no part left, \<^verbatim>\<open>parts[index]\<close> is \<^verbatim>\<open>undefined\<close> and names the property
  \<^verbatim>\<open>"undefined"\<close>; \<^verbatim>\<open>resolveRef\<close> never calls it so.\<close>

fun recursive :: "jv \<Rightarrow> string list \<Rightarrow> error + jv" where
  "recursive obj [] = get obj ''undefined''"
| "recursive obj [p] = get obj p"
| "recursive obj (p # q # ps) = bindE (get obj p) (\<lambda>obj'. recursive obj' (q # ps))"

definition resolveRef :: "jv \<Rightarrow> string \<Rightarrow> error + jv" where
  "resolveRef openApi ref =
     (let parts = split CHR ''/'' ref
      in if length parts \<le> 1 then Inr (JObj []) else recursive openApi (drop 1 parts))"

section \<open>Base URL Builder\<close>

definition getBaseUrl :: "jv \<Rightarrow> error + jv" where
  "getBaseUrl openApi =
     bindE (get openApi ''servers'') (\<lambda>servers.
       if truthy servers then bindE (get servers ''0'') (\<lambda>server. get server ''url'')
       else
         bindE (get openApi ''schemes'') (\<lambda>schemes.
         bindE (if schemes \<noteq> JUndef then bindE (get schemes ''0'') tostr
                else Inr ''http'') (\<lambda>baseUrl.
         bindE (get openApi ''basePath'') (\<lambda>basePath.
         bindE (get openApi ''host'') (\<lambda>host.
         bindE (tostr host) (\<lambda>h.
           if basePath = JStr ''/'' \<or> \<not> truthy basePath
           then Inr (JStr (baseUrl @ ''://'' @ h))
           else bindE (tostr basePath) (\<lambda>b. Inr (JStr (baseUrl @ ''://'' @ h @ b)))))))))"

section \<open>Parameters\<close>

text \<open>The head of every loop over a parameter list: a parameter that is a local
  reference is replaced by what the reference resolves to.
  \<^verbatim>\<open>if (typeof param['$ref'] === 'string' && /^#/.test(param['$ref']))
    param = resolveRef(openApi, param['$ref'])\<close>\<close>

definition derefParam :: "jv \<Rightarrow> jv \<Rightarrow> error + jv" where
  "derefParam openApi param =
     bindE (get param ''$ref'') (\<lambda>r.
       case local_ref r of
         Some ref \<Rightarrow> resolveRef openApi ref
       | None \<Rightarrow> Inr param)"

text \<open>The loop heads of \<^verbatim>\<open>getQueryStrings\<close> and \<^verbatim>\<open>getPayload\<close> go on with
  \<^verbatim>\<open>if (typeof param.schema !== 'undefined') { if (typeof param.schema['$ref'] === 'string'
    && /^#/.test(param.schema['$ref'])) { ... } }\<close>.
  The schema needs no resolution when it is undefined or the inner test is false.\<close>

definition schema_resolved :: "jv \<Rightarrow> bool" where
  "schema_resolved param =
     (case get param ''schema'' of
        Inl e \<Rightarrow> False
      | Inr schema \<Rightarrow>
          schema = JUndef \<or>
          (case get schema ''$ref'' of Inl e \<Rightarrow> False | Inr r \<Rightarrow> local_ref r = None))"

text \<open>A parameter list in which the loop heads find nothing to assign: every parameter,
  dereferenced, has a schema that needs no resolution. (The keys of a JavaScript object
  are distinct.)\<close>

definition params_resolved :: "jv \<Rightarrow> jv \<Rightarrow> bool" where
  "params_resolved openApi parameters \<longleftrightarrow>
     distinct (forin parameters) \<and>
     list_all (\<lambda>p. case derefParam openApi p of
                      Inl e \<Rightarrow> False
                    | Inr param \<Rightarrow> schema_resolved param)
       (forin_values parameters)"

text \<open>\<^verbatim>\<open>typeof param.in !== 'undefined' && param.in.toLowerCase() === loc\<close>\<close>

definition param_in :: "jv \<Rightarrow> string \<Rightarrow> error + bool" where
  "param_in param loc =
     bindE (get param ''in'') (\<lambda>pin.
       if pin \<noteq> JUndef then bindE (toLowerCase pin) (\<lambda>l. Inr (l = loc)) else Inr False)"

text \<open>\<^verbatim>\<open>'SOME_' + (param.type || param.schema.type).toUpperCase() + '_VALUE'\<close>\<close>

definition placeholder :: "jv \<Rightarrow> error + string" where
  "placeholder param =
     bindE (get param ''type'') (\<lambda>t.
     bindE (if truthy t then Inr t
            else bindE (get param ''schema'') (\<lambda>schema. get schema ''type'')) (\<lambda>ty.
     bindE (toUpperCase ty) (\<lambda>u. Inr (''SOME_'' @ u @ ''_VALUE''))))"

section \<open>Path Renderer\<close>

text \<open>The body of the loop of \<^verbatim>\<open>getFullPath\<close>. (A function as second argument
  of \<^verbatim>\<open>replace\<close> is called for the replacement text.)\<close>

definition pathParam :: "jv \<Rightarrow> string \<Rightarrow> jv \<Rightarrow> error + string" where
  "pathParam openApi fullPath p =
     bindE (derefParam openApi p) (\<lambda>param.
     bindE (param_in param ''path'') (\<lambda>is_path.
       if is_path then
         bindE (get param ''example'') (\<lambda>example.
           if example \<noteq> JUndef then
             bindE (get param ''name'') (\<lambda>name.
             bindE (tostr name) (\<lambda>n.
               if is_function example then Inl Unmodelled
               else bindE (tostr example) (\<lambda>e.
                 Inr (replace fullPath (''{'' @ n @ ''}'') e))))
           else Inr fullPath)
       else Inr fullPath))"

definition getFullPath :: "jv \<Rightarrow> string \<Rightarrow> string \<Rightarrow> error + string" where
  "getFullPath openApi path method =
     bindE (get openApi ''paths'') (\<lambda>paths.
     bindE (get paths path) (\<lambda>pathItem.
     bindE (get pathItem ''parameters'') (\<lambda>pathLevel.
     bindE (if truthy pathLevel then Inr pathLevel
            else bindE (get pathItem method) (\<lambda>operation. get operation ''parameters''))
       (\<lambda>parameters.
          if parameters \<noteq> JUndef
          then foldE (pathParam openApi) (forin_values parameters) path
          else Inr path))))"

section \<open>Header Builder\<close>

type_synonym header = "string \<times> jv"

text \<open>The bodies of the two loops over \<^verbatim>\<open>in: header\<close> parameters. The state is
  \<^verbatim>\<open>headers\<close> and \<^verbatim>\<open>definedHeaders\<close>. Every name pushed by a call that returns is a
  string, since \<^verbatim>\<open>param.name.toLowerCase()\<close> is called in the same iteration.\<close>

definition pathLevelHeader ::
  "jv \<Rightarrow> header list \<times> string list \<Rightarrow> jv \<Rightarrow> error + header list \<times> string list" where
  "pathLevelHeader openApi st p =
     (case st of (headers, definedHeaders) \<Rightarrow>
        bindE (derefParam openApi p) (\<lambda>param.
        bindE (param_in param ''header'') (\<lambda>is_header.
          if is_header then
            bindE (get param ''name'') (\<lambda>name.
            bindE (placeholder param) (\<lambda>val.
            bindE (the_string name) (\<lambda>n.
              Inr (headers @ [(n, JStr val)], definedHeaders @ [lower n]))))
          else Inr (headers, definedHeaders))))"

definition methodLevelHeader ::
  "jv \<Rightarrow> header list \<times> string list \<Rightarrow> jv \<Rightarrow> error + header list \<times> string list" where
  "methodLevelHeader openApi st p =
     (case st of (headers, definedHeaders) \<Rightarrow>
        bindE (derefParam openApi p) (\<lambda>param.
        bindE (param_in param ''header'') (\<lambda>is_header.
          if is_header then
            bindE (get param ''name'') (\<lambda>name.
            bindE (the_string name) (\<lambda>n.
            bindE (placeholder param) (\<lambda>val.
              if lower n \<in> set definedHeaders
              then Inr (filter (\<lambda>h. lower (fst h) \<noteq> lower n) headers @ [(n, JStr val)],
                        definedHeaders)
              else Inr (headers @ [(n, JStr val)], definedHeaders @ [lower n]))))
          else Inr (headers, definedHeaders))))"

text \<open>\<^verbatim>\<open>openApi.securityDefinitions ? openApi.securityDefinitions[secScheme]
    : openApi.components.securitySchemes[secScheme]\<close>\<close>

definition secDefinitionOf :: "jv \<Rightarrow> jv \<Rightarrow> error + jv" where
  "secDefinitionOf openApi secScheme =
     bindE (get openApi ''securityDefinitions'') (\<lambda>defs.
       if truthy defs then bindE (tostr secScheme) (get defs)
       else bindE (get openApi ''components'') (\<lambda>components.
            bindE (get components ''securitySchemes'') (\<lambda>schemes.
            bindE (tostr secScheme) (get schemes))))"

text \<open>\<^verbatim>\<open>Object.keys(requirement)[0]\<close>\<close>

definition first_key :: "jv \<Rightarrow> error + jv" where
  "first_key requirement =
     bindE (object_keys requirement) (\<lambda>keys.
       case keys of [] \<Rightarrow> Inr JUndef | k # _ \<Rightarrow> Inr (JStr k))"

text \<open>The \<^verbatim>\<open>switch (authType)\<close> of both security loops, on the state
  \<^verbatim>\<open>basicAuthDef\<close>, \<^verbatim>\<open>apiKeyAuthDef\<close>, \<^verbatim>\<open>oauthDef\<close>. The two loops list the cases in
  a different order, the cases being disjoint.\<close>

definition classify ::
  "jv \<times> jv \<times> jv \<Rightarrow> jv \<Rightarrow> jv \<Rightarrow> string \<Rightarrow> string option \<Rightarrow> error + jv \<times> jv \<times> jv" where
  "classify st secScheme secDefinition authType authScheme =
     (case st of (basicAuthDef, apiKeyAuthDef, oauthDef) \<Rightarrow>
        if authType = ''basic'' then Inr (secScheme, apiKeyAuthDef, oauthDef)
        else if authType = ''apikey'' then
          bindE (get secDefinition ''in'') (\<lambda>loc.
            if loc = JStr ''header'' then Inr (basicAuthDef, secDefinition, oauthDef)
            else Inr (basicAuthDef, apiKeyAuthDef, oauthDef))
        else if authType = ''oauth2'' then Inr (basicAuthDef, apiKeyAuthDef, secScheme)
        else if authType = ''http'' then
          (if authScheme = Some ''bearer'' then Inr (basicAuthDef, apiKeyAuthDef, secScheme)
           else if authScheme = Some ''basic'' then Inr (secScheme, apiKeyAuthDef, oauthDef)
           else Inr (basicAuthDef, apiKeyAuthDef, oauthDef))
        else Inr (basicAuthDef, apiKeyAuthDef, oauthDef))"

text \<open>The body of the loop over the operation's \<^verbatim>\<open>security\<close>:
  \<^verbatim>\<open>if (authType !== 'apikey' && secDefinition.scheme != null)
    authScheme = secDefinition.scheme.toLowerCase()\<close>\<close>

definition operationSecurity :: "jv \<Rightarrow> jv \<times> jv \<times> jv \<Rightarrow> jv \<Rightarrow> error + jv \<times> jv \<times> jv" where
  "operationSecurity openApi st requirement =
     bindE (first_key requirement) (\<lambda>secScheme.
     bindE (secDefinitionOf openApi secScheme) (\<lambda>secDefinition.
     bindE (get secDefinition ''type'') (\<lambda>ty.
     bindE (toLowerCase ty) (\<lambda>authType.
     bindE (get secDefinition ''scheme'') (\<lambda>scheme.
     bindE (if authType \<noteq> ''apikey'' \<and> scheme \<noteq> JUndef \<and> scheme \<noteq> JNull
            then bindE (toLowerCase scheme) (\<lambda>s. Inr (Some s))
            else Inr None) (\<lambda>authScheme.
       classify st secScheme secDefinition authType authScheme))))))"

text \<open>The body of the loop over the document's \<^verbatim>\<open>security\<close>:
  \<^verbatim>\<open>if (authType !== 'apikey' && authType !== 'oauth2')
    authScheme = secDefinition.scheme.toLowerCase()\<close>\<close>

definition documentSecurity :: "jv \<Rightarrow> jv \<times> jv \<times> jv \<Rightarrow> jv \<Rightarrow> error + jv \<times> jv \<times> jv" where
  "documentSecurity openApi st requirement =
     bindE (first_key requirement) (\<lambda>secScheme.
     bindE (secDefinitionOf openApi secScheme) (\<lambda>secDefinition.
     bindE (get secDefinition ''type'') (\<lambda>ty.
     bindE (toLowerCase ty) (\<lambda>authType.
     bindE (get secDefinition ''scheme'') (\<lambda>scheme.
     bindE (if authType \<noteq> ''apikey'' \<and> authType \<noteq> ''oauth2''
            then bindE (toLowerCase scheme) (\<lambda>s. Inr (Some s))
            else Inr None) (\<lambda>authScheme.
       classify st secScheme secDefinition authType authScheme))))))"

text \<open>The candidates that the security requirements of the operation give, or those of
  the document when the operation has no \<^verbatim>\<open>security\<close>.\<close>

definition securityDefs :: "jv \<Rightarrow> jv \<Rightarrow> error + jv \<times> jv \<times> jv" where
  "securityDefs openApi pathObj =
     bindE (get pathObj ''security'') (\<lambda>security.
       if security \<noteq> JUndef
       then foldE (operationSecurity openApi) (forin_values security) (JUndef, JUndef, JUndef)
       else bindE (get openApi ''security'') (\<lambda>docSecurity.
         if docSecurity \<noteq> JUndef
         then foldE (documentSecurity openApi) (forin_values docSecurity) (JUndef, JUndef, JUndef)
         else Inr (JUndef, JUndef, JUndef)))"

text \<open>The final \<^verbatim>\<open>if ... else if ... else if\<close> of \<^verbatim>\<open>getHeadersArray\<close>: the headers it
  pushes.\<close>

definition bearerHeader :: "string list \<Rightarrow> jv \<Rightarrow> header list" where
  "bearerHeader definedHeaders oauthDef =
     (if truthy oauthDef \<and> ''authorization'' \<notin> set definedHeaders
      then [(''Authorization'', JStr ''Bearer REPLACE_BEARER_TOKEN'')]
      else [])"

definition authHeader :: "string list \<Rightarrow> jv \<times> jv \<times> jv \<Rightarrow> error + header list" where
  "authHeader definedHeaders defs =
     (case defs of (basicAuthDef, apiKeyAuthDef, oauthDef) \<Rightarrow>
        if truthy basicAuthDef \<and> ''authorization'' \<notin> set definedHeaders
        then Inr [(''Authorization'', JStr ''Basic REPLACE_BASIC_AUTH'')]
        else if truthy apiKeyAuthDef then
          bindE (get apiKeyAuthDef ''name'') (\<lambda>name.
          bindE (the_string name) (\<lambda>n.
            if lower n \<notin> set definedHeaders
            then Inr [(n, JStr ''REPLACE_KEY_VALUE'')]
            else Inr (bearerHeader definedHeaders oauthDef)))
        else Inr (bearerHeader definedHeaders oauthDef))"

text \<open>The \<^verbatim>\<open>accept\<close> and \<^verbatim>\<open>content-type\<close> headers: from the operation's
  \<^verbatim>\<open>consumes\<close> and \<^verbatim>\<open>produces\<close>, else from the document's, and from the keys of
  \<^verbatim>\<open>requestBody.content\<close>.\<close>

definition mediaHeaders :: "jv \<Rightarrow> jv \<Rightarrow> error + header list" where
  "mediaHeaders openApi pathObj =
     bindE (get pathObj ''consumes'') (\<lambda>consumes.
     bindE (get openApi ''consumes'') (\<lambda>docConsumes.
     bindE (get pathObj ''produces'') (\<lambda>produces.
     bindE (get openApi ''produces'') (\<lambda>docProduces.
     bindE (get pathObj ''requestBody'') (\<lambda>requestBody.
     bindE (if truthy requestBody then get requestBody ''content'' else Inr JUndef) (\<lambda>content.
       Inr (map (\<lambda>type. (''accept'', type))
              (if consumes \<noteq> JUndef then forin_values consumes
               else if docConsumes \<noteq> JUndef then forin_values docConsumes else [])
          @ map (\<lambda>type. (''content-type'', type))
              (if produces \<noteq> JUndef then forin_values produces
               else if docProduces \<noteq> JUndef then forin_values docProduces else [])
          @ map (\<lambda>type. (''content-type'', JStr type))
              (if truthy content then forin content else []))))))))"

text \<open>\<^verbatim>\<open>openApi.paths[path]\<close> and \<^verbatim>\<open>pathObj = openApi.paths[path][method]\<close>\<close>

definition operationOf :: "jv \<Rightarrow> string \<Rightarrow> string \<Rightarrow> error + jv \<times> jv" where
  "operationOf openApi path method =
     bindE (get openApi ''paths'') (\<lambda>paths.
     bindE (get paths path) (\<lambda>pathItem.
     bindE (get pathItem method) (\<lambda>pathObj. Inr (pathItem, pathObj))))"

text \<open>The headers and the defined names after the two parameter loops.\<close>

definition paramHeaders :: "jv \<Rightarrow> jv \<Rightarrow> jv \<Rightarrow> error + header list \<times> string list" where
  "paramHeaders openApi pathItem pathObj =
     bindE (mediaHeaders openApi pathObj) (\<lambda>headers.
     bindE (get pathItem ''parameters'') (\<lambda>pathLevel.
     bindE (if pathLevel \<noteq> JUndef
            then foldE (pathLevelHeader openApi) (forin_values pathLevel) (headers, [])
            else Inr (headers, [])) (\<lambda>st.
     bindE (get pathObj ''parameters'') (\<lambda>methodLevel.
       if methodLevel \<noteq> JUndef
       then foldE (methodLevelHeader openApi) (forin_values methodLevel) st
       else Inr st))))"

definition getHeadersArray :: "jv \<Rightarrow> string \<Rightarrow> string \<Rightarrow> error + header list" where
  "getHeadersArray openApi path method =
     bindE (operationOf openApi path method) (\<lambda>(pathItem, pathObj).
     bindE (paramHeaders openApi pathItem pathObj) (\<lambda>(headers, definedHeaders).
     bindE (securityDefs openApi pathObj) (\<lambda>defs.
     bindE (authHeader definedHeaders defs) (\<lambda>auth.
       Inr (headers @ auth)))))"

section \<open>The document as state\<close>

text \<open>
  \<^verbatim>\<open>getQueryStrings\<close> and \<^verbatim>\<open>getPayload\<close> assign to the document they read:
  \<^verbatim>\<open>param.schema = resolveRef(...)\<close>, \<^verbatim>\<open>param.schema.type = 'object'\<close> and
  \<^verbatim>\<open>requestBody = resolveRef(...)\<close>; \<^verbatim>\<open>getPayload\<close> and \<^verbatim>\<open>openApiToHarList\<close>
  write to the console. The state is the document, the list of logged errors, and the
  addresses of the objects that the document holds in more than one place.

  The document is a tree, and an object in it is addressed by the keys that lead to it from
  the root. After \<^verbatim>\<open>param.schema = resolveRef(openApi, ref)\<close> the schema of the parameter
  and the target of the reference are one object: the tree holds the target a second time,
  and both addresses are recorded as shared. \<^verbatim>\<open>param.schema.type = 'object'\<close>, the
  assignment that follows at once, is written to both places. Any other assignment to an
  object at or below a shared address would have to show in every place of that object:
  there the run ends with \<open>Unmodelled\<close>, and so does one that would make an object a
  part of itself or assign to a built-in function. The two places of a shared object
  therefore always hold equal trees, and a run that returns reads what the code reads.
\<close>

record state =
  doc :: jv
  logged :: "error list"
  shared :: "string list list"

type_synonym 'a st = "state \<Rightarrow> (error + 'a) \<times> state"

definition returnS :: "'a \<Rightarrow> 'a st" where
  "returnS x = (\<lambda>s. (Inr x, s))"

definition bindS :: "'a st \<Rightarrow> ('a \<Rightarrow> 'b st) \<Rightarrow> 'b st" where
  "bindS m f = (\<lambda>s. case m s of (Inl e, s') \<Rightarrow> (Inl e, s') | (Inr x, s') \<Rightarrow> f x s')"

text \<open>A computation that reads the document, one that assigns in it, and \<^verbatim>\<open>console.log\<close>.\<close>

definition readS :: "(jv \<Rightarrow> error + 'a) \<Rightarrow> 'a st" where
  "readS f = (\<lambda>s. (f (doc s), s))"

definition modifyS :: "(jv \<Rightarrow> jv) \<Rightarrow> unit st" where
  "modifyS f = (\<lambda>s. (Inr (), s\<lparr>doc := f (doc s)\<rparr>))"

definition logS :: "error \<Rightarrow> unit st" where
  "logS e = (\<lambda>s. (Inr (), s\<lparr>logged := logged s @ [e]\<rparr>))"

text \<open>A run goes on only if the shared addresses allow it, and new shared addresses.\<close>

definition guardS :: "(string list list \<Rightarrow> bool) \<Rightarrow> unit st" where
  "guardS ok = (\<lambda>s. (if ok (shared s) then Inr () else Inl Unmodelled, s))"

definition shareS :: "string list list \<Rightarrow> unit st" where
  "shareS addresses = (\<lambda>s. (Inr (), s\<lparr>shared := shared s @ addresses\<rparr>))"

fun foldS :: "('s \<Rightarrow> 'a \<Rightarrow> 's st) \<Rightarrow> 'a list \<Rightarrow> 's \<Rightarrow> 's st" where
  "foldS f [] acc = returnS acc"
| "foldS f (x # xs) acc = bindS (f acc x) (foldS f xs)"

text \<open>\<^verbatim>\<open>openApi[k1][k2]...\<close>\<close>

fun getAt :: "string list \<Rightarrow> jv \<Rightarrow> error + jv" where
  "getAt [] v = Inr v"
| "getAt (k # ks) v = bindE (get v k) (getAt ks)"

text \<open>\<^verbatim>\<open>obj.k = v\<close>: a new property comes last; on a string, a number or a boolean the
  assignment does nothing (the module is not in strict mode). The module assigns the
  properties \<^verbatim>\<open>schema\<close>, \<^verbatim>\<open>type\<close> and \<^verbatim>\<open>requestBody\<close> only.\<close>

fun upd :: "(string \<times> jv) list \<Rightarrow> string \<Rightarrow> jv \<Rightarrow> (string \<times> jv) list" where
  "upd [] k v = [(k, v)]"
| "upd ((k', x) # ps) k v = (if k' = k then (k', v) # ps else (k', x) # upd ps k v)"

fun set_elem :: "nat \<Rightarrow> jv list \<Rightarrow> string \<Rightarrow> jv \<Rightarrow> jv list option" where
  "set_elem i [] k v = None"
| "set_elem i (x # xs) k v =
     (if show_nat i = k then Some (v # xs) else map_option ((#) x) (set_elem (Suc i) xs k v))"

fun assignProp :: "jv \<Rightarrow> string \<Rightarrow> jv \<Rightarrow> jv" where
  "assignProp (JObj ps) k v = JObj (upd ps k v)"
| "assignProp (JArr xs ps) k v =
     (case set_elem 0 xs k v of Some xs' \<Rightarrow> JArr xs' ps | None \<Rightarrow> JArr xs (upd ps k v))"
| "assignProp x k v = x"

text \<open>The document after a change of the object at an address; an address that leads
  nowhere is the address of no object of the document.\<close>

fun updateAt :: "string list \<Rightarrow> (jv \<Rightarrow> jv) \<Rightarrow> jv \<Rightarrow> jv" where
  "updateAt [] f v = f v"
| "updateAt (k # ks) f v =
     (case map_of (props_of v) k of
        Some c \<Rightarrow> assignProp v k (updateAt ks f c)
      | None \<Rightarrow> v)"

text \<open>The address of the object that \<^verbatim>\<open>resolveRef\<close> returns; the empty object that it
  returns for a reference without \<^verbatim>\<open>/\<close> is new and has no address.\<close>

definition ref_address :: "string \<Rightarrow> string list option" where
  "ref_address ref =
     (let parts = split CHR ''/'' ref
      in if length parts \<le> 1 then None else Some (drop 1 parts))"

definition assignAt :: "string list option \<Rightarrow> string \<Rightarrow> jv \<Rightarrow> jv \<Rightarrow> jv" where
  "assignAt address k v openApi =
     (case address of
        None \<Rightarrow> openApi
      | Some ks \<Rightarrow> updateAt ks (\<lambda>obj. assignProp obj k v) openApi)"

text \<open>An address lies within another when it is that address or leads through it; two
  addresses overlap when one lies within the other.\<close>

definition within :: "string list \<Rightarrow> string list \<Rightarrow> bool" where
  "within a b \<longleftrightarrow> take (length b) a = b"

definition in_shared :: "string list option \<Rightarrow> string list list \<Rightarrow> bool" where
  "in_shared address sh =
     (case address of None \<Rightarrow> False | Some a \<Rightarrow> list_ex (within a) sh)"

definition overlap :: "string list option \<Rightarrow> string list option \<Rightarrow> bool" where
  "overlap a b =
     (case (a, b) of (Some x, Some y) \<Rightarrow> within x y \<or> within y x | _ \<Rightarrow> False)"

definition slot :: "string list option \<Rightarrow> string \<Rightarrow> string list option" where
  "slot address k = map_option (\<lambda>ks. ks @ [k]) address"

fun is_object :: "jv \<Rightarrow> bool" where
  "is_object (JObj ps) = True"
| "is_object (JArr xs ps) = True"
| "is_object _ = False"

text \<open>The two places of an object that has become shared: the slot it was assigned to
  and its own address; none when the object is new.\<close>

definition places :: "jv \<Rightarrow> string list option \<Rightarrow> string list option \<Rightarrow> string list list" where
  "places target a b =
     (case (a, b) of
        (Some x, Some y) \<Rightarrow> if is_object target then [x, y] else []
      | _ \<Rightarrow> [])"

text \<open>\<^verbatim>\<open>obj.k = target\<close> for the object at an address and a target that
  \<^verbatim>\<open>resolveRef\<close> found at the address \<open>home\<close>.\<close>

definition storeS :: "string list option \<Rightarrow> string \<Rightarrow> jv \<Rightarrow> string list option \<Rightarrow> unit st"
  where
  "storeS address k target home =
     bindS (guardS (\<lambda>sh. \<not> is_function target \<and> \<not> in_shared address sh \<and>
                          \<not> (is_object target \<and> overlap (slot address k) home))) (\<lambda>_.
       modifyS (assignAt address k target))"

text \<open>The head of the loops of \<^verbatim>\<open>getQueryStrings\<close> and \<^verbatim>\<open>getPayload\<close>: the
  parameter at an address, dereferenced, with the address of the object that \<^verbatim>\<open>param\<close>
  then is.\<close>

definition paramAt :: "string list \<Rightarrow> (jv \<times> string list option) st" where
  "paramAt address =
     readS (\<lambda>openApi.
       bindE (getAt address openApi) (\<lambda>param.
       bindE (get param ''$ref'') (\<lambda>r.
         case local_ref r of
           Some ref \<Rightarrow> bindE (resolveRef openApi ref) (\<lambda>p. Inr (p, ref_address ref))
         | None \<Rightarrow> Inr (param, Some address))))"

text \<open>
  \<^verbatim>\<open>if (typeof param.schema !== 'undefined') {
    if (typeof param.schema['$ref'] === 'string' && /^#/.test(param.schema['$ref'])) {
      param.schema = resolveRef(openApi, param.schema['$ref'])
      if (typeof param.schema.type === 'undefined') { param.schema.type = 'object' } } }\<close>
  The result is the parameter as the rest of the iteration reads it.
\<close>

definition resolveSchema :: "string list option \<Rightarrow> jv \<Rightarrow> jv st" where
  "resolveSchema address param =
     bindS (readS (\<lambda>_. get param ''schema'')) (\<lambda>schema.
       if schema \<noteq> JUndef then
         bindS (readS (\<lambda>_. get schema ''$ref'')) (\<lambda>r.
           case local_ref r of
             Some ref \<Rightarrow>
               bindS (readS (\<lambda>openApi. resolveRef openApi ref)) (\<lambda>target.
               bindS (storeS address ''schema'' target (ref_address ref)) (\<lambda>_.
               bindS (readS (\<lambda>_. get target ''type'')) (\<lambda>ty.
               bindS (if ty = JUndef then
                        bindS (guardS (\<lambda>sh. \<not> (is_object target \<and>
                                                  in_shared (ref_address ref) sh))) (\<lambda>_.
                        bindS (modifyS (assignAt (ref_address ref) ''type'' (JStr ''object'')))
                          (\<lambda>_.
                          modifyS (assignAt (slot address ''schema'') ''type''
                                     (JStr ''object''))))
                      else returnS ()) (\<lambda>_.
               bindS (shareS (places target (slot address ''schema'') (ref_address ref)))
                 (\<lambda>_.
                 returnS (assignProp param ''schema''
                            (if ty = JUndef then assignProp target ''type'' (JStr ''object'')
                             else target)))))))
           | None \<Rightarrow> returnS param)
       else returnS param)"

section \<open>Query String Builder\<close>

text \<open>
  \<^verbatim>\<open>let value = 'SOME_' + (param.type || param.schema.type).toUpperCase() + '_VALUE'
  if (typeof values[param.name] !== 'undefined') { value = values[param.name] + '' }
  else if (typeof param.default !== 'undefined') { value = param.default + '' }
  else if (typeof param.schema !== 'undefined' && typeof param.schema.example !== 'undefined')
    { value = param.schema.example + '' }\<close>
\<close>

definition queryValue :: "jv \<Rightarrow> jv \<Rightarrow> error + string" where
  "queryValue values param =
     bindE (placeholder param) (\<lambda>val.
     bindE (get param ''name'') (\<lambda>name.
     bindE (tostr name) (\<lambda>key.
     bindE (get values key) (\<lambda>override.
       if override \<noteq> JUndef then tostr override
       else
         bindE (get param ''default'') (\<lambda>dflt.
           if dflt \<noteq> JUndef then tostr dflt
           else
             bindE (get param ''schema'') (\<lambda>schema.
               if schema \<noteq> JUndef then
                 bindE (get schema ''example'') (\<lambda>example.
                   if example \<noteq> JUndef then tostr example else Inr val)
               else Inr val))))))"

type_synonym query = "string \<times> string"

text \<open>What an iteration of the path-level loop does with \<^verbatim>\<open>queryStrings\<close> and
  \<^verbatim>\<open>definedQueryStrings\<close>, and what one of the method-level loop does.\<close>

definition pathLevelQuery ::
  "jv \<Rightarrow> query list \<times> string list \<Rightarrow> jv \<Rightarrow> error + query list \<times> string list" where
  "pathLevelQuery values st param =
     (case st of (queryStrings, definedQueryStrings) \<Rightarrow>
        bindE (param_in param ''query'') (\<lambda>is_query.
          if is_query then
            bindE (queryValue values param) (\<lambda>val.
            bindE (get param ''name'') (\<lambda>name.
            bindE (the_string name) (\<lambda>n.
              Inr (queryStrings @ [(n, val)], definedQueryStrings @ [lower n]))))
          else Inr (queryStrings, definedQueryStrings)))"

definition methodLevelQuery ::
  "jv \<Rightarrow> query list \<times> string list \<Rightarrow> jv \<Rightarrow> error + query list \<times> string list" where
  "methodLevelQuery values st param =
     (case st of (queryStrings, definedQueryStrings) \<Rightarrow>
        bindE (param_in param ''query'') (\<lambda>is_query.
          if is_query then
            bindE (queryValue values param) (\<lambda>val.
            bindE (get param ''name'') (\<lambda>name.
            bindE (the_string name) (\<lambda>n.
              if lower n \<in> set definedQueryStrings
              then Inr (filter (\<lambda>qry. lower (fst qry) \<noteq> lower n) queryStrings @ [(n, val)],
                        definedQueryStrings)
              else Inr (queryStrings @ [(n, val)], definedQueryStrings @ [lower n]))))
          else Inr (queryStrings, definedQueryStrings)))"

text \<open>One iteration: the parameter at key \<open>i\<close> of the list at \<open>address\<close> is
  dereferenced, its schema is resolved in place, and \<open>body\<close> does the rest.\<close>

definition queryIteration ::
  "(query list \<times> string list \<Rightarrow> jv \<Rightarrow> error + query list \<times> string list) \<Rightarrow> string list \<Rightarrow>
   query list \<times> string list \<Rightarrow> string \<Rightarrow> (query list \<times> string list) st" where
  "queryIteration body address st i =
     bindS (paramAt (address @ [i])) (\<lambda>(param0, paddr).
     bindS (resolveSchema paddr param0) (\<lambda>param.
       readS (\<lambda>_. body st param)))"

text \<open>The two loops of \<^verbatim>\<open>getQueryStrings\<close>: over the parameters of the path item,
  from the empty lists, and over those of the operation, from what the first loop left.\<close>

definition pathLevelQueries :: "string \<Rightarrow> jv \<Rightarrow> (query list \<times> string list) st" where
  "pathLevelQueries path values =
     bindS (readS (getAt [''paths'', path, ''parameters''])) (\<lambda>pathLevel.
       if pathLevel \<noteq> JUndef
       then foldS (queryIteration (pathLevelQuery values) [''paths'', path, ''parameters''])
              (forin pathLevel) ([], [])
       else returnS ([], []))"

definition methodLevelQueries ::
  "string \<Rightarrow> string \<Rightarrow> jv \<Rightarrow> query list \<times> string list \<Rightarrow> (query list \<times> string list) st"
  where
  "methodLevelQueries path method values st =
     bindS (readS (getAt [''paths'', path, method, ''parameters''])) (\<lambda>methodLevel.
       if methodLevel \<noteq> JUndef
       then foldS (queryIteration (methodLevelQuery values)
                     [''paths'', path, method, ''parameters''])
              (forin methodLevel) st
       else returnS st)"

definition getQueryStrings :: "string \<Rightarrow> string \<Rightarrow> jv \<Rightarrow> query list st" where
  "getQueryStrings path method values0 =
     (let values = (if values0 = JUndef then JObj [] else values0) in
      bindS (pathLevelQueries path values) (\<lambda>st.
      bindS (methodLevelQueries path method values st)
        (\<lambda>(queryStrings, definedQueryStrings). returnS queryStrings)))"

section \<open>Payload Builder\<close>

text \<open>The schema sampler \<^verbatim>\<open>OpenAPISampler.sample(schema, {skipReadOnly: true}, openApi)\<close>
  and \<^verbatim>\<open>JSON.stringify\<close> are not part of the module: they are parameters here, the
  sampler a function of the schema and the document that returns a sample or raises.\<close>

type_synonym sampler = "jv \<Rightarrow> jv \<Rightarrow> error + jv"

record postData =
  mimeType :: string
  pd_text :: jv
  params :: "(jv \<times> string) list option"

text \<open>
  \<^verbatim>\<open>if (!payload || !payload.params) {
    payload = { mimeType: 'multipart/form-data', text: '', params: [ sample ] }
  } else if (payload.params && payload.params.length > 0) { payload.params.push(sample) }\<close>
\<close>

definition addParam :: "postData option \<Rightarrow> jv \<times> string \<Rightarrow> postData option" where
  "addParam payload sample =
     (let fresh = Some \<lparr>mimeType = ''multipart/form-data'', pd_text = JStr [],
                        params = Some [sample]\<rparr>
      in case payload of
           None \<Rightarrow> fresh
         | Some p \<Rightarrow>
             (case params p of
                None \<Rightarrow> fresh
              | Some ps \<Rightarrow>
                  if length ps > 0 then Some (p\<lparr>params := Some (ps @ [sample])\<rparr>)
                  else Some p))"

definition jsonPayload :: "(jv \<Rightarrow> jv) \<Rightarrow> jv \<Rightarrow> postData option" where
  "jsonPayload stringify sample =
     Some \<lparr>mimeType = ''application/json'', pd_text = stringify sample, params = None\<rparr>"

text \<open>An iteration of a parameter loop of \<^verbatim>\<open>getPayload\<close> goes on to the next one with
  a payload, or leaves \<^verbatim>\<open>getPayload\<close> with \<^verbatim>\<open>return null\<close>.\<close>

datatype flow = Next "postData option" | Return "postData option"

text \<open>The \<^verbatim>\<open>in: formdata\<close> block of an iteration.\<close>

definition formdataParam :: "postData option \<Rightarrow> jv \<Rightarrow> error + postData option" where
  "formdataParam payload param =
     bindE (param_in param ''formdata'') (\<lambda>is_formdata.
       if is_formdata then
         bindE (get param ''name'') (\<lambda>name.
         bindE (get param ''type'') (\<lambda>ty.
         bindE (toUpperCase ty) (\<lambda>u.
           Inr (addParam payload (name, ''SOME_'' @ u @ ''_VALUE'')))))
       else Inr payload)"

text \<open>The \<^verbatim>\<open>in: body\<close> block, with its \<^verbatim>\<open>try ... catch (err) { console.log(err);
  return null }\<close> around the sampler, and then the \<^verbatim>\<open>in: formdata\<close> block.\<close>

definition bodyParam :: "sampler \<Rightarrow> (jv \<Rightarrow> jv) \<Rightarrow> postData option \<Rightarrow> jv \<Rightarrow> flow st" where
  "bodyParam sample stringify payload param =
     bindS (readS (\<lambda>_. param_in param ''body'')) (\<lambda>is_body.
     bindS (readS (\<lambda>_. get param ''schema'')) (\<lambda>schema.
       if is_body \<and> schema \<noteq> JUndef then
         bindS (readS (\<lambda>openApi. Inr (sample schema openApi))) (\<lambda>r.
           case r of
             Inl err \<Rightarrow> bindS (logS err) (\<lambda>_. returnS (Return None))
           | Inr smp \<Rightarrow>
               bindS (readS (\<lambda>_. formdataParam (jsonPayload stringify smp) param)) (\<lambda>p.
                 returnS (Next p)))
       else
         bindS (readS (\<lambda>_. formdataParam payload param)) (\<lambda>p. returnS (Next p))))"

definition payloadIteration ::
  "sampler \<Rightarrow> (jv \<Rightarrow> jv) \<Rightarrow> string list \<Rightarrow> postData option \<Rightarrow> string \<Rightarrow> flow st" where
  "payloadIteration sample stringify address payload i =
     bindS (paramAt (address @ [i])) (\<lambda>(param0, paddr).
     bindS (resolveSchema paddr param0) (\<lambda>param.
       bodyParam sample stringify payload param))"

fun foldFlow :: "(postData option \<Rightarrow> 'a \<Rightarrow> flow st) \<Rightarrow> 'a list \<Rightarrow> postData option \<Rightarrow> flow st"
  where
  "foldFlow f [] payload = returnS (Next payload)"
| "foldFlow f (x # xs) payload =
     bindS (f payload x) (\<lambda>r.
       case r of Next p \<Rightarrow> foldFlow f xs p | Return p \<Rightarrow> returnS (Return p))"

text \<open>
  \<^verbatim>\<open>if (openApi.paths[path][method].requestBody
      && openApi.paths[path][method].requestBody['$ref']) {
    openApi.paths[path][method].requestBody =
      resolveRef(openApi, openApi.paths[path][method].requestBody['$ref']) }\<close>
\<close>

definition resolveRequestBody :: "string \<Rightarrow> string \<Rightarrow> unit st" where
  "resolveRequestBody path method =
     bindS (readS (getAt [''paths'', path, method, ''requestBody''])) (\<lambda>requestBody.
       if truthy requestBody then
         bindS (readS (\<lambda>_. get requestBody ''$ref'')) (\<lambda>ref.
           if truthy ref then
             bindS (readS (\<lambda>_. the_string ref)) (\<lambda>r.
             bindS (readS (\<lambda>openApi. resolveRef openApi r)) (\<lambda>target.
             bindS (storeS (Some [''paths'', path, method]) ''requestBody'' target
                      (ref_address r)) (\<lambda>_.
               shareS (places target (Some [''paths'', path, method, ''requestBody''])
                         (ref_address r)))))
           else returnS ())
       else returnS ())"

text \<open>The body of the loop over \<^verbatim>\<open>requestBody.content\<close>: \<open>i\<close> is the content type
  and \<open>requestBody\<close> is \<^verbatim>\<open>content[i]\<close>. No \<^verbatim>\<open>try\<close> surrounds the sampler here.\<close>

definition contentEntry ::
  "sampler \<Rightarrow> (jv \<Rightarrow> jv) \<Rightarrow> jv \<Rightarrow> postData option \<Rightarrow> string \<times> jv \<Rightarrow> error + postData option"
  where
  "contentEntry sample stringify openApi payload entry =
     (case entry of (i, requestBody) \<Rightarrow>
        bindE (get requestBody ''schema'') (\<lambda>schema.
          if truthy schema \<and> i = ''multipart/form-data'' then
            bindE (sample schema openApi) (\<lambda>smp.
              foldE (\<lambda>payload (formData, v).
                       bindE (toUpperCase v) (\<lambda>u.
                         Inr (addParam payload (JStr formData, ''SOME_'' @ u @ ''_VALUE''))))
                (props_of smp) payload)
          else if truthy schema \<and> (i = ''application/json'' \<or> i = ''*/*'') then
            bindE (sample schema openApi) (\<lambda>smp. Inr (jsonPayload stringify smp))
          else Inr payload))"

definition getPayload :: "sampler \<Rightarrow> (jv \<Rightarrow> jv) \<Rightarrow> string \<Rightarrow> string \<Rightarrow> postData option st" where
  "getPayload sample stringify path method =
     bindS (readS (getAt [''paths'', path, ''parameters''])) (\<lambda>pathLevel.
     bindS (if pathLevel \<noteq> JUndef
            then foldFlow (payloadIteration sample stringify [''paths'', path, ''parameters''])
                   (forin pathLevel) None
            else returnS (Next None)) (\<lambda>r1.
       case r1 of
         Return p \<Rightarrow> returnS p
       | Next payload1 \<Rightarrow>
     bindS (readS (getAt [''paths'', path, method, ''parameters''])) (\<lambda>methodLevel.
     bindS (if methodLevel \<noteq> JUndef
            then foldFlow (payloadIteration sample stringify
                             [''paths'', path, method, ''parameters''])
                   (forin methodLevel) payload1
            else returnS (Next payload1)) (\<lambda>r2.
       case r2 of
         Return p \<Rightarrow> returnS p
       | Next payload2 \<Rightarrow>
     bindS (resolveRequestBody path method) (\<lambda>_.
     bindS (readS (getAt [''paths'', path, method, ''requestBody''])) (\<lambda>requestBody.
     bindS (readS (\<lambda>_. if truthy requestBody then get requestBody ''content''
                         else Inr JUndef)) (\<lambda>content.
       if truthy requestBody \<and> truthy content
       then readS (\<lambda>openApi.
              foldE (contentEntry sample stringify openApi) (props_of content) payload2)
       else returnS payload2)))))))"

section \<open>Request Assembler\<close>

record har =
  har_method :: string
  har_url :: string
  har_headers :: "header list"
  har_queryString :: "query list"
  har_httpVersion :: string
  har_cookies :: "jv list"
  har_headersSize :: int
  har_bodySize :: int
  har_postData :: "postData option"

definition createHar ::
  "sampler \<Rightarrow> (jv \<Rightarrow> jv) \<Rightarrow> string \<Rightarrow> string \<Rightarrow> jv \<Rightarrow> har st" where
  "createHar sample stringify path method queryParamValues0 =
     (let queryParamValues = (if queryParamValues0 = JUndef then JObj [] else queryParamValues0)
      in
      bindS (readS getBaseUrl) (\<lambda>baseUrl.
      bindS (readS (\<lambda>openApi. getFullPath openApi path method)) (\<lambda>fullPath.
      bindS (readS (\<lambda>_. tostr baseUrl)) (\<lambda>base.
      bindS (readS (\<lambda>openApi. getHeadersArray openApi path method)) (\<lambda>headers.
      bindS (getQueryStrings path method queryParamValues) (\<lambda>queryStrings.
      bindS (getPayload sample stringify path method) (\<lambda>payload.
        returnS \<lparr>har_method = upper method,
                 har_url = base @ fullPath,
                 har_headers = headers,
                 har_queryString = queryStrings,
                 har_httpVersion = ''HTTP/1.1'',
                 har_cookies = [],
                 har_headersSize = 0,
                 har_bodySize = 0,
                 har_postData = payload\<rparr>)))))))"

record entry =
  entry_method :: string
  entry_url :: string
  entry_description :: jv
  entry_har :: har

text \<open>The body of the inner loop of \<^verbatim>\<open>openApiToHarList\<close>, the inner loop, and the
  \<^verbatim>\<open>try\<close> block.\<close>

definition methodEntry ::
  "sampler \<Rightarrow> (jv \<Rightarrow> jv) \<Rightarrow> jv \<Rightarrow> string \<Rightarrow> entry list \<Rightarrow> string \<Rightarrow> entry list st" where
  "methodEntry sample stringify baseUrl path harList method =
     bindS (readS (\<lambda>_. tostr baseUrl)) (\<lambda>base.
     bindS (createHar sample stringify path method JUndef) (\<lambda>h.
     bindS (readS (getAt [''paths'', path, method, ''description''])) (\<lambda>d.
       returnS (harList @
         [\<lparr>entry_method = upper method,
           entry_url = base @ path,
           entry_description = (if truthy d then d else JStr ''No description available''),
           entry_har = h\<rparr>]))))"

definition pathEntries ::
  "sampler \<Rightarrow> (jv \<Rightarrow> jv) \<Rightarrow> jv \<Rightarrow> entry list \<Rightarrow> string \<Rightarrow> entry list st" where
  "pathEntries sample stringify baseUrl harList path =
     bindS (readS (getAt [''paths'', path])) (\<lambda>pathItem.
       foldS (methodEntry sample stringify baseUrl path) (forin pathItem) harList)"

definition harEntries :: "sampler \<Rightarrow> (jv \<Rightarrow> jv) \<Rightarrow> entry list st" where
  "harEntries sample stringify =
     bindS (readS getBaseUrl) (\<lambda>baseUrl.
     bindS (readS (\<lambda>openApi. get openApi ''paths'')) (\<lambda>paths.
       foldS (pathEntries sample stringify baseUrl) (forin paths) []))"

text \<open>\<^verbatim>\<open>try { ...; return harList } catch (e) { console.log(e) }\<close>: the list, or
  \<^verbatim>\<open>undefined\<close> (here \<open>None\<close>) after an error, which is logged.\<close>

definition openApiToHarList ::
  "sampler \<Rightarrow> (jv \<Rightarrow> jv) \<Rightarrow> state \<Rightarrow> entry list option \<times> state" where
  "openApiToHarList sample stringify s =
     (case harEntries sample stringify s of
        (Inr harList, s') \<Rightarrow> (Some harList, s')
      | (Inl e, s') \<Rightarrow> (None, s'\<lparr>logged := logged s' @ [e]\<rparr>))"

text \<open>The state in which a document is before the first call.\<close>

definition loaded :: "jv \<Rightarrow> state" where
  "loaded openApi = \<lparr>doc = openApi, logged = [], shared = []\<rparr>"

section \<open>Properties of the Reference Resolver\<close>

lemma bindE_Inr [simp]: "bindE (Inr x) f = f x"
  by (simp add: bindE_def)

lemma bindE_Inl [simp]: "bindE (Inl e) f = Inl e"
  by (simp add: bindE_def)

lemma bindE_return [simp]: "bindE m Inr = m"
  by (cases m) simp_all

lemma bindE_eq_Inr: "bindE m f = Inr y \<longleftrightarrow> (\<exists>x. m = Inr x \<and> f x = Inr y)"
  by (cases m) simp_all

lemma bindE_InrE:
  assumes "bindE m f = Inr y"
  obtains x where "m = Inr x" and "f x = Inr y"
  using assms by (cases m) simp_all

lemma the_string_eq_Inr [simp]: "the_string v = Inr s \<longleftrightarrow> v = JStr s"
  by (cases v) auto

lemma split_without: "c \<notin> set s \<Longrightarrow> split c s = [s]"
  by (induction s) auto

lemma split_at_first: "c \<notin> set a \<Longrightarrow> split c (a @ c # r) = a # split c r"
  by (induction a) auto

lemma split_segments:
  "c \<notin> set a \<Longrightarrow> c \<notin> set (concat ks) \<Longrightarrow> split c (a @ concat (map ((#) c) ks)) = a # ks"
proof (induction ks arbitrary: a)
  case Nil
  then show ?case by (simp add: split_without)
next
  case (Cons k ks)
  from Cons.prems have k: "c \<notin> set k" and ks: "c \<notin> set (concat ks)" by simp_all
  have "split c (a @ c # (k @ concat (map ((#) c) ks))) = a # split c (k @ concat (map ((#) c) ks))"
    using Cons.prems(1) by (rule split_at_first)
  with Cons.IH [OF k ks] show ?case by simp
qed

lemma getAt_append: "getAt (ks @ ks') v = bindE (getAt ks v) (getAt ks')"
proof (induction ks arbitrary: v)
  case Nil
  show ?case by simp
next
  case (Cons k ks)
  then show ?case by (cases "get v k") simp_all
qed

lemma recursive_getAt: "ks \<noteq> [] \<Longrightarrow> recursive obj ks = getAt ks obj"
proof (induction obj ks rule: recursive.induct)
  case (1 obj)
  then show ?case by simp
next
  case (2 obj p)
  show ?case by (cases "get obj p") simp_all
next
  case (3 obj p q ps)
  then show ?case by (cases "get obj p") simp_all
qed

lemma resolveRef_getAt:
  assumes "CHR ''/'' \<notin> set a" and "CHR ''/'' \<notin> set (concat (k # ks))"
  shows "resolveRef openApi (a @ concat (map ((#) CHR ''/'') (k # ks))) = getAt (k # ks) openApi"
proof -
  have "split CHR ''/'' (a @ concat (map ((#) CHR ''/'') (k # ks))) = a # k # ks"
    using assms by (rule split_segments)
  then show ?thesis
    using recursive_getAt [of "k # ks" openApi] by (simp add: resolveRef_def)
qed

lemma getAt_absent: "v = JUndef \<or> v = JNull \<Longrightarrow> getAt (k # ks) v = Inl TypeError"
  by auto

text \<open>
  Claim C7, as amended. \<^verbatim>\<open>resolveRef\<close> returns an empty object for every reference
  string that has no \<^verbatim>\<open>/\<close>, that is no path segment beyond the first part. Every other
  reference \<^verbatim>\<open>a/k1/.../kn\<close> is followed through the document from its second part on,
  by the property reads \<^verbatim>\<open>openApi[k1]...[kn]\<close>, whatever they find: when the last
  segment names a property that the value reached by the segments before it does not have,
  neither as its own nor inherited, the result is \<^verbatim>\<open>undefined\<close>, not an empty object;
  and when a segment is to be read in \<^verbatim>\<open>undefined\<close> or \<^verbatim>\<open>null\<close>, as it is after
  any segment but the last that names a missing property, the call raises a
  \<^verbatim>\<open>TypeError\<close>.
\<close>

theorem resolveRef_segments:
  "(CHR ''/'' \<notin> set ref \<longrightarrow> resolveRef openApi ref = Inr (JObj [])) \<and>
   (CHR ''/'' \<notin> set a \<and> CHR ''/'' \<notin> set (concat (k # ks)) \<longrightarrow>
      resolveRef openApi (a @ concat (map ((#) CHR ''/'') (k # ks))) = getAt (k # ks) openApi) \<and>
   (CHR ''/'' \<notin> set a \<and> CHR ''/'' \<notin> set (concat (ks @ [k])) \<and>
    getAt ks openApi = Inr v \<and> get v k = Inr JUndef \<longrightarrow>
      resolveRef openApi (a @ concat (map ((#) CHR ''/'') (ks @ [k]))) = Inr JUndef) \<and>
   (CHR ''/'' \<notin> set a \<and> CHR ''/'' \<notin> set (concat (ks @ k # rest)) \<and>
    getAt ks openApi = Inr v \<and> (v = JUndef \<or> v = JNull) \<longrightarrow>
      resolveRef openApi (a @ concat (map ((#) CHR ''/'') (ks @ k # rest))) = Inl TypeError)"
proof (intro conjI impI)
  assume "CHR ''/'' \<notin> set ref"
  then show "resolveRef openApi ref = Inr (JObj [])"
    by (simp add: resolveRef_def split_without)
next
  assume "CHR ''/'' \<notin> set a \<and> CHR ''/'' \<notin> set (concat (k # ks))"
  then show "resolveRef openApi (a @ concat (map ((#) CHR ''/'') (k # ks))) = getAt (k # ks) openApi"
    using resolveRef_getAt by blast
next
  assume h: "CHR ''/'' \<notin> set a \<and> CHR ''/'' \<notin> set (concat (ks @ [k])) \<and>
    getAt ks openApi = Inr v \<and> get v k = Inr JUndef"
  obtain k' ks' where e: "ks @ [k] = k' # ks'" by (cases ks) auto
  from h have "resolveRef openApi (a @ concat (map ((#) CHR ''/'') (k' # ks'))) = getAt (k' # ks') openApi"
    unfolding e [symmetric] using resolveRef_getAt [of a k' ks' openApi] e by metis
  moreover from h have "getAt (ks @ [k]) openApi = Inr JUndef"
    by (simp add: getAt_append)
  ultimately show "resolveRef openApi (a @ concat (map ((#) CHR ''/'') (ks @ [k]))) = Inr JUndef"
    unfolding e by simp
next
  assume h: "CHR ''/'' \<notin> set a \<and> CHR ''/'' \<notin> set (concat (ks @ k # rest)) \<and>
    getAt ks openApi = Inr v \<and> (v = JUndef \<or> v = JNull)"
  obtain k' ks' where e: "ks @ k # rest = k' # ks'" by (cases ks) auto
  from h have "resolveRef openApi (a @ concat (map ((#) CHR ''/'') (k' # ks'))) = getAt (k' # ks') openApi"
    unfolding e [symmetric] using resolveRef_getAt [of a k' ks' openApi] e by metis
  moreover from h have "getAt (ks @ k # rest) openApi = Inl TypeError"
    using getAt_absent [of v k rest] by (simp add: getAt_append)
  ultimately show "resolveRef openApi (a @ concat (map ((#) CHR ''/'') (ks @ k # rest))) = Inl TypeError"
    unfolding e by simp
qed

theorem resolveRef_segments_witness:
  "resolveRef (JObj [(''info'', JObj [])]) ''#'' = Inr (JObj []) \<and>
   resolveRef (JObj [(''info'', JObj [])]) ''#/info/constructor/name'' = Inr (JStr ''Object'') \<and>
   resolveRef (JObj [(''info'', JObj [])]) ''#/info/title'' = Inr JUndef \<and>
   resolveRef (JObj [(''info'', JObj [])]) ''#/components/schemas/Pet'' = Inl TypeError"
proof -
  let ?D = "JObj [(''info'', JObj [])]"
  have g1: "getAt [''info'', ''constructor'', ''name''] ?D = Inr (JStr ''Object'')"
    by code_simp
  have g2: "getAt [''info''] ?D = Inr (JObj [])" "get (JObj []) ''title'' = Inr JUndef"
    by code_simp+
  have g3: "getAt [''components''] ?D = Inr JUndef"
    by code_simp
  note T = resolveRef_segments [where openApi = ?D and a = "''#''"]
  have c1: "resolveRef ?D ''#'' = Inr (JObj [])"
    using T [where ref = "''#''"] by simp
  have c2: "resolveRef ?D ''#/info/constructor/name'' = Inr (JStr ''Object'')"
    using T [where k = "''info''" and ks = "[''constructor'', ''name'']"] g1 by simp
  have c3: "resolveRef ?D ''#/info/title'' = Inr JUndef"
    using T [where ks = "[''info'']" and k = "''title''" and v = "JObj []"] g2 by simp
  have c4: "resolveRef ?D ''#/components/schemas/Pet'' = Inl TypeError"
    using T [where ks = "[''components'']" and k = "''schemas''" and rest = "[''Pet'']"
        and v = JUndef] g3 by simp
  from c1 c2 c3 c4 show ?thesis by blast
qed

text \<open>Claim C7 as stated fails: in the empty document the reference
  \<^verbatim>\<open>#/definitions/Pet\<close> raises and \<^verbatim>\<open>#/definitions\<close> yields \<^verbatim>\<open>undefined\<close>.\<close>

theorem resolveRef_unresolvable_counterexample:
  "resolveRef (JObj []) ''#/definitions/Pet'' = Inl TypeError \<and>
   resolveRef (JObj []) ''#/definitions'' = Inr JUndef"
  by code_simp

section \<open>Properties of the Path Renderer\<close>

lemma expand_plain: "CHR ''$'' \<notin> set r \<Longrightarrow> expand m b a r = r"
  by (induction m b a r rule: expand.induct) auto

lemma find_sub_sound: "find_sub pat s = Some (b, a) \<Longrightarrow> s = b @ pat @ a"
proof (induction s arbitrary: b)
  case Nil
  then show ?case by (simp split: if_splits)
next
  case (Cons c cs)
  show ?case
  proof (cases "take (length pat) (c # cs) = pat")
    case True
    with Cons.prems have "b = []" and "a = drop (length pat) (c # cs)" by simp_all
    with True show ?thesis by (metis append_Nil append_take_drop_id)
  next
    case False
    with Cons.prems obtain b0 where "find_sub pat cs = Some (b0, a)" and "b = c # b0"
      by auto
    with Cons.IH show ?thesis by simp
  qed
qed

lemma find_sub_least:
  "find_sub pat s = Some (b, a) \<Longrightarrow> s = b' @ pat @ a' \<Longrightarrow> length b \<le> length b'"
proof (induction s arbitrary: b b')
  case Nil
  then show ?case by (simp split: if_splits)
next
  case (Cons c cs)
  show ?case
  proof (cases "take (length pat) (c # cs) = pat")
    case True
    with Cons.prems(1) have "b = []" by simp
    then show ?thesis by simp
  next
    case False
    have "b' \<noteq> []"
    proof
      assume "b' = []"
      with Cons.prems(2) have "c # cs = pat @ a'" by simp
      then have "take (length pat) (c # cs) = pat" by simp
      with False show False by simp
    qed
    then obtain b'' where b': "b' = c # b''" and cs: "cs = b'' @ pat @ a'"
      using Cons.prems(2) by (cases b') auto
    from False Cons.prems(1) obtain b0 where "find_sub pat cs = Some (b0, a)" and "b = c # b0"
      by auto
    with Cons.IH [OF _ cs] b' show ?thesis by simp
  qed
qed

lemma find_sub_complete: "s = b' @ pat @ a' \<Longrightarrow> \<exists>b a. find_sub pat s = Some (b, a)"
proof (induction b' arbitrary: s)
  case Nil
  then have "take (length pat) s = pat" by simp
  then show ?case by (cases s) auto
next
  case (Cons c b'')
  then obtain cs where s: "s = c # cs" and cs: "cs = b'' @ pat @ a'" by simp
  from Cons.IH [OF cs] obtain b a where "find_sub pat cs = Some (b, a)" by blast
  with s show ?case by auto
qed

lemma replace_first:
  assumes s: "s = pre @ pat @ post"
    and least: "\<forall>b a. s = b @ pat @ a \<longrightarrow> length pre \<le> length b"
    and plain: "CHR ''$'' \<notin> set repl"
  shows "replace s pat repl = pre @ repl @ post"
proof -
  from find_sub_complete [OF s] obtain b a where f: "find_sub pat s = Some (b, a)" by blast
  have sb: "s = b @ pat @ a" by (rule find_sub_sound [OF f])
  have "length b \<le> length pre" by (rule find_sub_least [OF f s])
  moreover have "length pre \<le> length b" using least sb by blast
  ultimately have "length b = length pre" by simp
  with s sb have "b = pre" and "a = post" by auto
  with f plain show ?thesis by (simp add: replace_def expand_plain)
qed

text \<open>
  Claim C1, as amended. \<^verbatim>\<open>getFullPath\<close> renders one parameter list only, and which one
  is decided by the path item: when the path item has \<^verbatim>\<open>parameters\<close> (any array, also an
  empty one), that list is rendered and the parameters of the operation are ignored
  entirely, so that the result is the same for every method of the path; the list of the
  operation is rendered only when the path item has none. For a parameter of the rendered
  list that is \<^verbatim>\<open>in: path\<close> and has an example whose string form contains no \<^verbatim>\<open>$\<close>,
  the first occurrence of \<^verbatim>\<open>{name}\<close> in the path is replaced by the example as a
  string (a number as JavaScript prints it); a parameter without example leaves the path as
  it is.
\<close>

theorem getFullPath_precedence:
  "(get openApi ''paths'' = Inr paths \<and> get paths path = Inr pathItem \<and>
    get pathItem ''parameters'' = Inr pathLevel \<and> truthy pathLevel \<longrightarrow>
      getFullPath openApi path meth = foldE (pathParam openApi) (forin_values pathLevel) path \<and>
      getFullPath openApi path meth = getFullPath openApi path meth') \<and>
   (get openApi ''paths'' = Inr paths \<and> get paths path = Inr pathItem \<and>
    get pathItem ''parameters'' = Inr pathLevel \<and> \<not> truthy pathLevel \<and>
    get pathItem meth = Inr operation \<and> get operation ''parameters'' = Inr methodLevel \<and>
    methodLevel \<noteq> JUndef \<longrightarrow>
      getFullPath openApi path meth = foldE (pathParam openApi) (forin_values methodLevel) path) \<and>
   (derefParam openApi p = Inr param \<and> param_in param ''path'' = Inr True \<and>
    get param ''name'' = Inr name \<and> tostr name = Inr n \<and>
    get param ''example'' = Inr example \<and> example \<noteq> JUndef \<and> \<not> is_function example \<and>
    tostr example = Inr e \<and> CHR ''$'' \<notin> set e \<and>
    fullPath = pre @ (''{'' @ n @ ''}'') @ post \<and>
    (\<forall>b a. fullPath = b @ (''{'' @ n @ ''}'') @ a \<longrightarrow> length pre \<le> length b) \<longrightarrow>
      pathParam openApi fullPath p = Inr (pre @ e @ post)) \<and>
   (derefParam openApi p = Inr param \<and> param_in param ''path'' = Inr True \<and>
    get param ''example'' = Inr JUndef \<longrightarrow>
      pathParam openApi fullPath p = Inr fullPath)"
proof (intro conjI impI)
  assume h: "get openApi ''paths'' = Inr paths \<and> get paths path = Inr pathItem \<and>
    get pathItem ''parameters'' = Inr pathLevel \<and> truthy pathLevel"
  then have "pathLevel \<noteq> JUndef" by auto
  with h show "getFullPath openApi path meth =
      foldE (pathParam openApi) (forin_values pathLevel) path"
    by (simp add: getFullPath_def)
  from h show "getFullPath openApi path meth = getFullPath openApi path meth'"
    by (simp add: getFullPath_def)
next
  assume "get openApi ''paths'' = Inr paths \<and> get paths path = Inr pathItem \<and>
    get pathItem ''parameters'' = Inr pathLevel \<and> \<not> truthy pathLevel \<and>
    get pathItem meth = Inr operation \<and> get operation ''parameters'' = Inr methodLevel \<and>
    methodLevel \<noteq> JUndef"
  then show "getFullPath openApi path meth =
      foldE (pathParam openApi) (forin_values methodLevel) path"
    by (simp add: getFullPath_def)
next
  assume h: "derefParam openApi p = Inr param \<and> param_in param ''path'' = Inr True \<and>
    get param ''name'' = Inr name \<and> tostr name = Inr n \<and>
    get param ''example'' = Inr example \<and> example \<noteq> JUndef \<and> \<not> is_function example \<and>
    tostr example = Inr e \<and> CHR ''$'' \<notin> set e \<and>
    fullPath = pre @ (''{'' @ n @ ''}'') @ post \<and>
    (\<forall>b a. fullPath = b @ (''{'' @ n @ ''}'') @ a \<longrightarrow> length pre \<le> length b)"
  then have "replace fullPath (''{'' @ n @ ''}'') e = pre @ e @ post"
    by (intro replace_first) blast+
  with h show "pathParam openApi fullPath p = Inr (pre @ e @ post)"
    by (simp add: pathParam_def)
next
  assume "derefParam openApi p = Inr param \<and> param_in param ''path'' = Inr True \<and>
    get param ''example'' = Inr JUndef"
  then show "pathParam openApi fullPath p = Inr fullPath"
    by (simp add: pathParam_def)
qed

theorem getFullPath_precedence_witness:
  "getFullPath
     (JObj [(''paths'', JObj [(''/pets/{id}'', JObj
        [(''parameters'', JArr [JObj [(''name'', JStr ''id''), (''in'', JStr ''path'')]] []),
         (''get'', JObj [(''parameters'', JArr
            [JObj [(''name'', JStr ''id''), (''in'', JStr ''path''),
                   (''example'', JStr ''42'')]] [])])])])])
     ''/pets/{id}'' ''get''
   = getFullPath
     (JObj [(''paths'', JObj [(''/pets/{id}'', JObj
        [(''parameters'', JArr [JObj [(''name'', JStr ''id''), (''in'', JStr ''path'')]] []),
         (''get'', JObj [(''parameters'', JArr
            [JObj [(''name'', JStr ''id''), (''in'', JStr ''path''),
                   (''example'', JStr ''42'')]] [])])])])])
     ''/pets/{id}'' ''delete'' \<and>
   getFullPath
     (JObj [(''paths'', JObj [(''/pets/{id}'', JObj
        [(''get'', JObj [(''parameters'', JArr
            [JObj [(''name'', JStr ''id''), (''in'', JStr ''path''),
                   (''example'', JStr ''42'')]] [])])])])])
     ''/pets/{id}'' ''get''
   = foldE (pathParam
     (JObj [(''paths'', JObj [(''/pets/{id}'', JObj
        [(''get'', JObj [(''parameters'', JArr
            [JObj [(''name'', JStr ''id''), (''in'', JStr ''path''),
                   (''example'', JStr ''42'')]] [])])])])]))
       [JObj [(''name'', JStr ''id''), (''in'', JStr ''path''), (''example'', JStr ''42'')]]
       ''/pets/{id}'' \<and>
   pathParam (JObj []) ''/pets/{id}/friends/{id}''
     (JObj [(''name'', JStr ''id''), (''in'', JStr ''Path''), (''example'', JNum ''1e+21'')])
   = Inr ''/pets/1e+21/friends/{id}'' \<and>
   pathParam (JObj []) ''/pets/{id}'' (JObj [(''name'', JStr ''id''), (''in'', JStr ''path'')])
   = Inr ''/pets/{id}''"
proof -
  let ?pl = "JArr [JObj [(''name'', JStr ''id''), (''in'', JStr ''path'')]] []"
  let ?ml = "JArr [JObj [(''name'', JStr ''id''), (''in'', JStr ''path''),
                         (''example'', JStr ''42'')]] []"
  let ?op = "JObj [(''parameters'', ?ml)]"
  let ?item1 = "JObj [(''parameters'', ?pl), (''get'', ?op)]"
  let ?item2 = "JObj [(''get'', ?op)]"
  let ?doc1 = "JObj [(''paths'', JObj [(''/pets/{id}'', ?item1)])]"
  let ?doc2 = "JObj [(''paths'', JObj [(''/pets/{id}'', ?item2)])]"
  let ?p1 = "JObj [(''name'', JStr ''id''), (''in'', JStr ''Path''), (''example'', JNum ''1e+21'')]"
  let ?p2 = "JObj [(''name'', JStr ''id''), (''in'', JStr ''path'')]"
  have h1: "get ?doc1 ''paths'' = Inr (JObj [(''/pets/{id}'', ?item1)])"
      "get (JObj [(''/pets/{id}'', ?item1)]) ''/pets/{id}'' = Inr ?item1"
      "get ?item1 ''parameters'' = Inr ?pl" "truthy ?pl"
    by code_simp+
  have h2: "get ?doc2 ''paths'' = Inr (JObj [(''/pets/{id}'', ?item2)])"
      "get (JObj [(''/pets/{id}'', ?item2)]) ''/pets/{id}'' = Inr ?item2"
      "get ?item2 ''parameters'' = Inr JUndef" "\<not> truthy JUndef"
      "get ?item2 ''get'' = Inr ?op" "get ?op ''parameters'' = Inr ?ml" "?ml \<noteq> JUndef"
    by code_simp+
  have fs: "find_sub ''{id}'' ''/pets/{id}/friends/{id}'' = Some (''/pets/'', ''/friends/{id}'')"
    by simp
  have least: "\<forall>b a. ''/pets/{id}/friends/{id}'' = b @ (''{'' @ ''id'' @ ''}'') @ a
       \<longrightarrow> length ''/pets/'' \<le> length b"
  proof (intro allI impI)
    fix b a
    assume "''/pets/{id}/friends/{id}'' = b @ (''{'' @ ''id'' @ ''}'') @ a"
    then have "''/pets/{id}/friends/{id}'' = b @ ''{id}'' @ a" by simp
    from find_sub_least [OF fs this] show "length ''/pets/'' \<le> length b" .
  qed
  have h3: "derefParam (JObj []) ?p1 = Inr ?p1" "param_in ?p1 ''path'' = Inr True"
      "get ?p1 ''name'' = Inr (JStr ''id'')" "tostr (JStr ''id'') = Inr ''id''"
      "get ?p1 ''example'' = Inr (JNum ''1e+21'')" "JNum ''1e+21'' \<noteq> JUndef"
      "\<not> is_function (JNum ''1e+21'')" "tostr (JNum ''1e+21'') = Inr ''1e+21''"
      "CHR ''$'' \<notin> set ''1e+21''"
      "''/pets/{id}/friends/{id}'' = ''/pets/'' @ (''{'' @ ''id'' @ ''}'') @ ''/friends/{id}''"
    by code_simp+
  have h4: "derefParam (JObj []) ?p2 = Inr ?p2" "param_in ?p2 ''path'' = Inr True"
      "get ?p2 ''example'' = Inr JUndef"
    by code_simp+
  have c1: "getFullPath ?doc1 ''/pets/{id}'' ''get'' = getFullPath ?doc1 ''/pets/{id}'' ''delete''"
    using getFullPath_precedence [where openApi = ?doc1 and path = "''/pets/{id}''"
        and paths = "JObj [(''/pets/{id}'', ?item1)]" and pathItem = ?item1
        and pathLevel = ?pl and meth = "''get''" and meth' = "''delete''"] h1
    by blast
  have c2: "getFullPath ?doc2 ''/pets/{id}'' ''get''
      = foldE (pathParam ?doc2) (forin_values ?ml) ''/pets/{id}''"
    using getFullPath_precedence [where openApi = ?doc2 and path = "''/pets/{id}''"
        and paths = "JObj [(''/pets/{id}'', ?item2)]" and pathItem = ?item2
        and pathLevel = JUndef and meth = "''get''" and operation = ?op
        and methodLevel = ?ml] h2
    by blast
  have c3: "pathParam (JObj []) ''/pets/{id}/friends/{id}'' ?p1
      = Inr (''/pets/'' @ ''1e+21'' @ ''/friends/{id}'')"
    using getFullPath_precedence [where openApi = "JObj []" and p = ?p1 and param = ?p1
        and name = "JStr ''id''" and n = "''id''" and example = "JNum ''1e+21''"
        and e = "''1e+21''"
        and fullPath = "''/pets/{id}/friends/{id}''" and pre = "''/pets/''"
        and post = "''/friends/{id}''"] h3 least
    by blast
  have c4: "pathParam (JObj []) ''/pets/{id}'' ?p2 = Inr ''/pets/{id}''"
    using getFullPath_precedence [where openApi = "JObj []" and p = ?p2 and param = ?p2
        and fullPath = "''/pets/{id}''"] h4
    by blast
  have fv: "forin_values ?ml
      = [JObj [(''name'', JStr ''id''), (''in'', JStr ''path''), (''example'', JStr ''42'')]]"
    by code_simp
  from c1 c2 c3 c4 show ?thesis
    unfolding fv by simp
qed

text \<open>Claim C1 as stated fails: the operation defines a path parameter with the example
  \<^verbatim>\<open>42\<close>, the path item defines a query parameter, and the placeholder stays.\<close>

theorem getFullPath_operation_level_counterexample:
  "getFullPath
     (JObj [(''paths'', JObj [(''/pets/{id}'', JObj
        [(''parameters'', JArr [JObj [(''name'', JStr ''limit''), (''in'', JStr ''query''),
                                     (''type'', JStr ''integer'')]] []),
         (''get'', JObj [(''parameters'', JArr
            [JObj [(''name'', JStr ''id''), (''in'', JStr ''path''), (''example'', JStr ''42'')]] [])])])])])
     ''/pets/{id}'' ''get''
   = Inr ''/pets/{id}''"
  by code_simp

section \<open>Properties of the Header Builder\<close>












text \<open>
  Claim C6 does not hold of the code. With the requirement
  \<^verbatim>\<open>[{basicAuth: []}]\<close> and the scheme \<^verbatim>\<open>{type: 'basic'}\<close> (a Swagger 2.0 basic scheme has no
  \<^verbatim>\<open>scheme\<close> property), \<^verbatim>\<open>getHeadersArray\<close> raises a \<^verbatim>\<open>TypeError\<close> when the requirement
  is the document's: the loop over \<^verbatim>\<open>openApi.security\<close> calls
  \<^verbatim>\<open>secDefinition.scheme.toLowerCase()\<close> without the test \<^verbatim>\<open>secDefinition.scheme != null\<close>
  that the loop over the operation's \<^verbatim>\<open>security\<close> makes. The same requirement on the
  operation gives the Basic header.
\<close>

theorem getHeadersArray_document_security_fails:
  "getHeadersArray
     (JObj [(''security'', JArr [JObj [(''basicAuth'', JArr [] [])]] []),
            (''securityDefinitions'', JObj [(''basicAuth'', JObj [(''type'', JStr ''basic'')])]),
            (''paths'', JObj [(''/pets'', JObj [(''get'', JObj [])])])])
     ''/pets'' ''get'' = Inl TypeError \<and>
   getHeadersArray
     (JObj [(''securityDefinitions'', JObj [(''basicAuth'', JObj [(''type'', JStr ''basic'')])]),
            (''paths'', JObj [(''/pets'', JObj [(''get'', JObj
               [(''security'', JArr [JObj [(''basicAuth'', JArr [] [])]] [])])])])])
     ''/pets'' ''get'' = Inr [(''Authorization'', JStr ''Basic REPLACE_BASIC_AUTH'')]"
  by code_simp



section \<open>Properties of the Query String Builder\<close>

lemma toUpperCase_eq_Inr: "toUpperCase ty = Inr u \<longleftrightarrow> (\<exists>s. ty = JStr s \<and> u = upper s)"
  by (cases ty) auto

lemma module_key_not_inherited:
  "k \<in> set module_keys \<Longrightarrow> k \<notin> set object_methods \<and> k \<noteq> ''__proto__'' \<and> k \<noteq> ''length''"
  by (auto simp: module_keys_def object_methods_def)

lemma inherited_module_key:
  assumes "k \<in> set module_keys"
  shows "\<exists>y. inherited v k = Inr y"
  using module_key_not_inherited [OF assms] assms by (cases v) auto

lemma get_module_key:
  assumes "get v k' = Inr x" and "k \<in> set module_keys"
  shows "\<exists>y. get v k = Inr y"
proof -
  from assms(1) have v: "v \<noteq> JUndef" "v \<noteq> JNull" by auto
  from module_key_not_inherited [OF assms(2)] have l: "k \<noteq> ''length''" by simp
  from inherited_module_key [OF assms(2)] obtain y where y: "inherited v k = Inr y" by blast
  show ?thesis
  proof (cases "map_of (props_of v) k")
    case None
    with v y l show ?thesis by (cases v) (auto split: option.splits)
  next
    case (Some z)
    with v show ?thesis by (cases v) auto
  qed
qed

lemma module_keys_mem:
  "''name'' \<in> set module_keys" "''default'' \<in> set module_keys" "''schema'' \<in> set module_keys"
  "''type'' \<in> set module_keys" "''in'' \<in> set module_keys" "''example'' \<in> set module_keys"
  "''$ref'' \<in> set module_keys"
  by (simp_all add: module_keys_def)

lemma get_own:
  assumes "distinct (map fst (props_of v))" and "(i, p) \<in> set (props_of v)"
  shows "get v i = Inr p"
proof -
  from assms have m: "map_of (props_of v) i = Some p" by simp
  from assms(2) have "v \<noteq> JUndef" "v \<noteq> JNull" by auto
  with m show ?thesis by (cases v) auto
qed

lemma bindS_Inr: "m s = (Inr x, s') \<Longrightarrow> bindS m f s = f x s'"
  by (simp add: bindS_def)

lemma bindS_Inl: "m s = (Inl e, s') \<Longrightarrow> bindS m f s = (Inl e, s')"
  by (simp add: bindS_def)

lemma bindS_readS: "bindS (readS f) g s = (case f (doc s) of Inl e \<Rightarrow> (Inl e, s) | Inr x \<Rightarrow> g x s)"
  by (simp add: bindS_def readS_def split: sum.splits)


lemma foldE_append: "foldE f (xs @ ys) s = bindE (foldE f xs s) (foldE f ys)"
proof (induction xs arbitrary: s)
  case Nil
  show ?case by simp
next
  case (Cons x xs)
  then show ?case by (cases "f s x") simp_all
qed

lemma paramAt_deref:
  assumes "getAt address (doc s) = Inr plist" and "get plist i = Inr p"
    and "derefParam (doc s) p = Inr param"
  shows "\<exists>paddr. paramAt (address @ [i]) s = (Inr (param, paddr), s)"
proof -
  from assms(1,2) have g: "getAt (address @ [i]) (doc s) = Inr p"
    by (simp add: getAt_append)
  from assms(3) obtain r where r: "get p ''$ref'' = Inr r"
    and d: "(case local_ref r of Some ref \<Rightarrow> resolveRef (doc s) ref | None \<Rightarrow> Inr p) = Inr param"
    unfolding derefParam_def by (elim bindE_InrE)
  show ?thesis
  proof (cases "local_ref r")
    case None
    with d g r show ?thesis by (simp add: paramAt_def readS_def)
  next
    case (Some ref)
    with d g r show ?thesis by (simp add: paramAt_def readS_def)
  qed
qed

lemma resolveSchema_resolved:
  assumes "schema_resolved param"
  shows "resolveSchema paddr param s = (Inr param, s)"
proof -
  from assms obtain schema where sc: "get param ''schema'' = Inr schema"
    and c: "schema = JUndef \<or>
      (case get schema ''$ref'' of Inl e \<Rightarrow> False | Inr r \<Rightarrow> local_ref r = None)"
    unfolding schema_resolved_def by (cases "get param ''schema''") auto
  show ?thesis
  proof (cases "schema = JUndef")
    case True
    with sc show ?thesis by (simp add: resolveSchema_def bindS_readS returnS_def)
  next
    case False
    with c obtain r where "get schema ''$ref'' = Inr r" "local_ref r = None"
      by (cases "get schema ''$ref''") auto
    with sc False show ?thesis by (simp add: resolveSchema_def bindS_readS returnS_def)
  qed
qed

lemma queryIteration_pure:
  assumes "getAt address (doc s) = Inr plist" and "get plist i = Inr p"
    and "derefParam (doc s) p = Inr param" and "schema_resolved param"
  shows "queryIteration body address st i s = (body st param, s)"
proof -
  from paramAt_deref [OF assms(1,2,3)] obtain paddr where
    "paramAt (address @ [i]) s = (Inr (param, paddr), s)" by blast
  then show ?thesis
    using resolveSchema_resolved [OF assms(4), of paddr s]
    by (simp add: queryIteration_def bindS_def readS_def)
qed

lemma queryLoop_pure:
  assumes "getAt address (doc s) = Inr plist"
    and "\<And>i p. (i, p) \<in> set ps \<Longrightarrow> get plist i = Inr p \<and>
           (\<exists>param. derefParam (doc s) p = Inr param \<and> schema_resolved param)"
  shows "foldS (queryIteration body address) (map fst ps) st s
    = (foldE (\<lambda>st p. bindE (derefParam (doc s) p) (body st)) (map snd ps) st, s)"
  using assms(2)
proof (induction ps arbitrary: st)
  case Nil
  show ?case by (simp add: returnS_def)
next
  case (Cons ip ps)
  obtain i p where ip: "ip = (i, p)" by (cases ip) auto
  from Cons.prems [of i p] ip obtain param where g: "get plist i = Inr p"
    and d: "derefParam (doc s) p = Inr param" and r: "schema_resolved param" by auto
  have it: "queryIteration body address st i s = (body st param, s)"
    by (rule queryIteration_pure [OF assms(1) g d r])
  show ?case
  proof (cases "body st param")
    case (Inl e)
    with it d ip show ?thesis by (simp add: bindS_def)
  next
    case (Inr st')
    have "foldS (queryIteration body address) (map fst ps) st' s
      = (foldE (\<lambda>st p. bindE (derefParam (doc s) p) (body st)) (map snd ps) st', s)"
      by (rule Cons.IH, rule Cons.prems) simp
    with Inr it d ip show ?thesis by (simp add: bindS_def)
  qed
qed


lemma params_resolved_props:
  assumes "params_resolved openApi plist" and "(i, p) \<in> set (props_of plist)"
  shows "get plist i = Inr p \<and>
    (\<exists>param. derefParam openApi p = Inr param \<and> schema_resolved param)"
proof -
  from assms(1) have d: "distinct (map fst (props_of plist))"
    and a: "list_all (\<lambda>p. case derefParam openApi p of
                      Inl e \<Rightarrow> False
                    | Inr param \<Rightarrow> schema_resolved param) (map snd (props_of plist))"
    by (simp_all add: params_resolved_def forin_def forin_values_def)
  from assms(2) have "p \<in> set (map snd (props_of plist))" by force
  with a have "case derefParam openApi p of Inl e \<Rightarrow> False | Inr param \<Rightarrow> schema_resolved param"
    unfolding list_all_iff by blast
  then have "\<exists>param. derefParam openApi p = Inr param \<and> schema_resolved param"
    by (cases "derefParam openApi p") auto
  with get_own [OF d assms(2)] show ?thesis by simp
qed

lemma queryLoop_resolved:
  assumes "getAt address (doc s) = Inr plist" and "params_resolved (doc s) plist"
  shows "foldS (queryIteration body address) (forin plist) st s
    = (foldE (\<lambda>st p. bindE (derefParam (doc s) p) (body st)) (forin_values plist) st, s)"
  unfolding forin_def forin_values_def
  by (rule queryLoop_pure [OF assms(1)]) (rule params_resolved_props [OF assms(2)])

lemma pathLevelQueries_resolved:
  assumes "getAt [''paths'', path, ''parameters''] (doc s) = Inr pathLevel"
    and "params_resolved (doc s) pathLevel"
  shows "pathLevelQueries path vals s
    = (foldE (\<lambda>st p. bindE (derefParam (doc s) p) (pathLevelQuery vals st))
         (forin_values pathLevel) ([], []), s)"
proof (cases "pathLevel = JUndef")
  case True
  with assms(1) show ?thesis
    by (simp add: pathLevelQueries_def bindS_readS returnS_def forin_values_def)
next
  case False
  with assms(1) queryLoop_resolved [OF assms] show ?thesis
    by (simp add: pathLevelQueries_def bindS_readS)
qed

lemma methodLevelQueries_resolved:
  assumes "getAt [''paths'', path, meth, ''parameters''] (doc s) = Inr methodLevel"
    and "params_resolved (doc s) methodLevel"
  shows "methodLevelQueries path meth vals st s
    = (foldE (\<lambda>st p. bindE (derefParam (doc s) p) (methodLevelQuery vals st))
         (forin_values methodLevel) st, s)"
proof (cases "methodLevel = JUndef")
  case True
  with assms(1) show ?thesis
    by (simp add: methodLevelQueries_def bindS_readS returnS_def forin_values_def)
next
  case False
  with assms(1) queryLoop_resolved [OF assms] show ?thesis
    by (simp add: methodLevelQueries_def bindS_readS)
qed

lemma getQueryStrings_resolved:
  assumes pl: "getAt [''paths'', path, ''parameters''] (doc s) = Inr pathLevel"
    and rpl: "params_resolved (doc s) pathLevel"
    and ml: "getAt [''paths'', path, meth, ''parameters''] (doc s) = Inr methodLevel"
    and rml: "params_resolved (doc s) methodLevel"
  shows "getQueryStrings path meth vals s
    = (bindE (foldE (\<lambda>st p. bindE (derefParam (doc s) p)
                 (pathLevelQuery (if vals = JUndef then JObj [] else vals) st))
               (forin_values pathLevel) ([], [])) (\<lambda>st.
       bindE (foldE (\<lambda>st p. bindE (derefParam (doc s) p)
                 (methodLevelQuery (if vals = JUndef then JObj [] else vals) st))
               (forin_values methodLevel) st) (\<lambda>st. Inr (fst st))), s)"
proof -
  let ?V = "if vals = JUndef then JObj [] else vals"
  let ?P = "foldE (\<lambda>st p. bindE (derefParam (doc s) p) (pathLevelQuery ?V st))
               (forin_values pathLevel) ([], [])"
  have p: "pathLevelQueries path ?V s = (?P, s)"
    by (rule pathLevelQueries_resolved [OF pl rpl])
  show ?thesis
  proof (cases ?P)
    case (Inl e)
    with p show ?thesis by (simp add: getQueryStrings_def Let_def bindS_def)
  next
    case (Inr st1)
    let ?M = "foldE (\<lambda>st p. bindE (derefParam (doc s) p) (methodLevelQuery ?V st))
               (forin_values methodLevel) st1"
    have m: "methodLevelQueries path meth ?V st1 s = (?M, s)"
      by (rule methodLevelQueries_resolved [OF ml rml])
    show ?thesis
    proof (cases ?M)
      case (Inl e)
      with p m Inr show ?thesis by (simp add: getQueryStrings_def Let_def bindS_def)
    next
      case r: (Inr st2)
      with p m Inr show ?thesis
        by (simp add: getQueryStrings_def Let_def bindS_def returnS_def split: prod.splits)
    qed
  qed
qed

lemma placeholder_Inr:
  assumes "placeholder param = Inr v"
  shows "\<exists>t ty s. get param ''type'' = Inr t \<and>
        (if truthy t then ty = t
         else \<exists>schema. get param ''schema'' = Inr schema \<and> get schema ''type'' = Inr ty) \<and>
        ty = JStr s \<and> v = ''SOME_'' @ upper s @ ''_VALUE''"
proof -
  from assms obtain t ty u where t: "get param ''type'' = Inr t"
    and a: "(if truthy t then Inr t
            else bindE (get param ''schema'') (\<lambda>schema. get schema ''type'')) = Inr ty"
    and u: "toUpperCase ty = Inr u" and v: "v = ''SOME_'' @ u @ ''_VALUE''"
    unfolding placeholder_def bindE_eq_Inr by blast
  from u obtain s where s: "ty = JStr s" "u = upper s"
    unfolding toUpperCase_eq_Inr by blast
  show ?thesis
  proof (cases "truthy t")
    case True
    with a have "ty = t" by simp
    with True t s v show ?thesis by auto
  next
    case False
    with a obtain schema where "get param ''schema'' = Inr schema" "get schema ''type'' = Inr ty"
      by (auto simp: bindE_eq_Inr)
    with False t s v show ?thesis by auto
  qed
qed








lemma placeholder_untyped:
  assumes "get param ''type'' = Inr JUndef" and "get param ''schema'' = Inr schema"
    and "schema = JUndef \<or> get schema ''type'' = Inr JUndef"
  shows "placeholder param = Inl TypeError"
  using assms by (auto simp: placeholder_def)

lemma foldE_reaches:
  assumes "foldE f before st0 = Inr st" and "f st p = Inl e"
  shows "foldE f (before @ p # after) st0 = Inl e"
  using assms by (simp add: foldE_append)

lemma queryStep_untyped:
  assumes "placeholder param = Inl TypeError" and "param_in param ''query'' = Inr True"
  shows "pathLevelQuery vals qst param = Inl TypeError"
    and "methodLevelQuery vals qst param = Inl TypeError"
proof -
  obtain qs d where qst: "qst = (qs, d)" by (cases qst) auto
  from assms(1) have qv: "queryValue vals param = Inl TypeError"
    by (simp add: queryValue_def)
  from assms(2) qv show "pathLevelQuery vals qst param = Inl TypeError"
    by (simp add: pathLevelQuery_def qst)
  from assms(2) qv show "methodLevelQuery vals qst param = Inl TypeError"
    by (simp add: methodLevelQuery_def qst)
qed

lemma headerStep_untyped:
  assumes ph: "placeholder param = Inl TypeError" and ty: "get param ''type'' = Inr t"
    and d: "derefParam openApi p = Inr param" and h: "param_in param ''header'' = Inr True"
  shows "pathLevelHeader openApi hst p = Inl TypeError"
    and "methodLevelHeader openApi hst p = Inl TypeError"
proof -
  obtain hs hd where hst: "hst = (hs, hd)" by (cases hst) auto
  from get_module_key [OF ty module_keys_mem(1)]
  obtain name where name: "get param ''name'' = Inr name" by blast
  from d h ph name show "pathLevelHeader openApi hst p = Inl TypeError"
    by (simp add: pathLevelHeader_def hst)
  from d h ph name show "methodLevelHeader openApi hst p = Inl TypeError"
    by (cases name) (simp_all add: methodLevelHeader_def hst)
qed

lemma getHeadersArray_pathLevel_fails:
  assumes op: "operationOf openApi path meth = Inr (pathItem, pathObj)"
    and mh: "mediaHeaders openApi pathObj = Inr hs0"
    and pl: "get pathItem ''parameters'' = Inr pathLevel"
    and f: "foldE (pathLevelHeader openApi) (forin_values pathLevel) (hs0, []) = Inl e"
  shows "getHeadersArray openApi path meth = Inl e"
proof -
  from f have "pathLevel \<noteq> JUndef" by (auto simp: forin_values_def)
  with mh pl f have "paramHeaders openApi pathItem pathObj = Inl e"
    by (simp add: paramHeaders_def)
  with op show ?thesis by (simp add: getHeadersArray_def)
qed

lemma getHeadersArray_methodLevel_fails:
  assumes op: "operationOf openApi path meth = Inr (pathItem, pathObj)"
    and mh: "mediaHeaders openApi pathObj = Inr hs0"
    and pl: "get pathItem ''parameters'' = Inr pathLevel"
    and f1: "foldE (pathLevelHeader openApi) (forin_values pathLevel) (hs0, []) = Inr st1"
    and ml: "get pathObj ''parameters'' = Inr methodLevel"
    and f: "foldE (methodLevelHeader openApi) (forin_values methodLevel) st1 = Inl e"
  shows "getHeadersArray openApi path meth = Inl e"
proof -
  from f have m: "methodLevel \<noteq> JUndef" by (auto simp: forin_values_def)
  have "(if pathLevel \<noteq> JUndef
            then foldE (pathLevelHeader openApi) (forin_values pathLevel) (hs0, [])
            else Inr (hs0, [])) = Inr st1"
    using f1 by (cases "pathLevel = JUndef") (simp_all add: forin_values_def)
  with mh pl ml m f have "paramHeaders openApi pathItem pathObj = Inl e"
    by (simp add: paramHeaders_def)
  with op show ?thesis by (simp add: getHeadersArray_def)
qed

lemma createHar_headers_fail:
  assumes "getBaseUrl (doc s) = Inr b" and "getFullPath (doc s) path meth = Inr fp"
    and "tostr b = Inr bs" and "getHeadersArray (doc s) path meth = Inl e"
  shows "createHar sample stringify path meth vals s = (Inl e, s)"
  using assms by (simp add: createHar_def Let_def bindS_readS)

lemma createHar_query_fail:
  assumes "getBaseUrl (doc s) = Inr b" and "getFullPath (doc s) path meth = Inr fp"
    and "tostr b = Inr bs" and "getHeadersArray (doc s) path meth = Inr hs"
    and "getQueryStrings path meth (if vals = JUndef then JObj [] else vals) s = (Inl e, s')"
  shows "createHar sample stringify path meth vals s = (Inl e, s')"
proof -
  have q: "bindS (getQueryStrings path meth (if vals = JUndef then JObj [] else vals)) f s
      = (Inl e, s')" for f :: "query list \<Rightarrow> har st"
    using assms(5) by (simp add: bindS_def)
  from assms(1-4) show ?thesis
    by (simp add: createHar_def Let_def bindS_readS q split del: if_split)
qed

lemma getQueryStrings_pathLevel_fails:
  assumes pl: "getAt [''paths'', path, ''parameters''] (doc s) = Inr pathLevel"
    and rpl: "params_resolved (doc s) pathLevel"
    and f: "foldE (\<lambda>st p. bindE (derefParam (doc s) p)
                 (pathLevelQuery (if vals = JUndef then JObj [] else vals) st))
               (forin_values pathLevel) ([], []) = Inl e"
  shows "getQueryStrings path meth vals s = (Inl e, s)"
  using pathLevelQueries_resolved [OF pl rpl, where vals = "if vals = JUndef then JObj [] else vals"] f
  by (simp add: getQueryStrings_def Let_def bindS_def split del: if_split)

lemma getQueryStrings_methodLevel_fails:
  assumes pl: "getAt [''paths'', path, ''parameters''] (doc s) = Inr pathLevel"
    and rpl: "params_resolved (doc s) pathLevel"
    and ml: "getAt [''paths'', path, meth, ''parameters''] (doc s) = Inr methodLevel"
    and rml: "params_resolved (doc s) methodLevel"
    and f1: "foldE (\<lambda>st p. bindE (derefParam (doc s) p)
                 (pathLevelQuery (if vals = JUndef then JObj [] else vals) st))
               (forin_values pathLevel) ([], []) = Inr st1"
    and f: "foldE (\<lambda>st p. bindE (derefParam (doc s) p)
                 (methodLevelQuery (if vals = JUndef then JObj [] else vals) st))
               (forin_values methodLevel) st1 = Inl e"
  shows "getQueryStrings path meth vals s = (Inl e, s)"
  using getQueryStrings_resolved [OF pl rpl ml rml, of vals] f1 f by simp


lemma values_default:
  "(if (if vals = JUndef then JObj [] else vals) = JUndef then JObj []
    else (if vals = JUndef then JObj [] else vals)) = (if vals = JUndef then JObj [] else vals)"
  by simp

lemma getQueryStrings_values:
  "getQueryStrings path meth (if vals = JUndef then JObj [] else vals) s
    = getQueryStrings path meth vals s"
  by (simp add: getQueryStrings_def Let_def)

lemma getQueryStrings_pathLevel_untyped:
  assumes ph: "placeholder param = Inl TypeError"
    and q: "param_in param ''query'' = Inr True"
    and d: "derefParam (doc s) p = Inr param"
    and pl: "getAt [''paths'', path, ''parameters''] (doc s) = Inr pathLevel"
    and rpl: "params_resolved (doc s) pathLevel"
    and l: "forin_values pathLevel = before @ p # after"
    and f: "foldE (\<lambda>st p. bindE (derefParam (doc s) p)
                 (pathLevelQuery (if vals = JUndef then JObj [] else vals) st))
               before ([], []) = Inr qst0"
  shows "getQueryStrings path meth vals s = (Inl TypeError, s)"
proof -
  let ?V = "if vals = JUndef then JObj [] else vals"
  have "bindE (derefParam (doc s) p) (pathLevelQuery ?V qst0) = Inl TypeError"
    using d queryStep_untyped(1) [OF ph q] by simp
  from foldE_reaches [OF f this]
  have "foldE (\<lambda>st p. bindE (derefParam (doc s) p) (pathLevelQuery ?V st))
               (forin_values pathLevel) ([], []) = Inl TypeError"
    unfolding l .
  then show ?thesis by (rule getQueryStrings_pathLevel_fails [OF pl rpl])
qed

lemma getQueryStrings_methodLevel_untyped:
  assumes ph: "placeholder param = Inl TypeError"
    and q: "param_in param ''query'' = Inr True"
    and d: "derefParam (doc s) p = Inr param"
    and pl: "getAt [''paths'', path, ''parameters''] (doc s) = Inr pathLevel"
    and rpl: "params_resolved (doc s) pathLevel"
    and ml: "getAt [''paths'', path, meth, ''parameters''] (doc s) = Inr methodLevel"
    and rml: "params_resolved (doc s) methodLevel"
    and f1: "foldE (\<lambda>st p. bindE (derefParam (doc s) p)
                 (pathLevelQuery (if vals = JUndef then JObj [] else vals) st))
               (forin_values pathLevel) ([], []) = Inr st1"
    and l: "forin_values methodLevel = before @ p # after"
    and f: "foldE (\<lambda>st p. bindE (derefParam (doc s) p)
                 (methodLevelQuery (if vals = JUndef then JObj [] else vals) st))
               before st1 = Inr qst0"
  shows "getQueryStrings path meth vals s = (Inl TypeError, s)"
proof -
  let ?V = "if vals = JUndef then JObj [] else vals"
  have "bindE (derefParam (doc s) p) (methodLevelQuery ?V qst0) = Inl TypeError"
    using d queryStep_untyped(2) [OF ph q] by simp
  from foldE_reaches [OF f this]
  have "foldE (\<lambda>st p. bindE (derefParam (doc s) p) (methodLevelQuery ?V st))
               (forin_values methodLevel) st1 = Inl TypeError"
    unfolding l .
  then show ?thesis by (rule getQueryStrings_methodLevel_fails [OF pl rpl ml rml f1])
qed

lemma createHar_query_fails:
  assumes "getQueryStrings path meth vals s = (Inl e, s')"
    and "getBaseUrl (doc s) = Inr b" and "getFullPath (doc s) path meth = Inr fp"
    and "tostr b = Inr bs" and "getHeadersArray (doc s) path meth = Inr hs"
  shows "createHar sample stringify path meth vals s = (Inl e, s')"
  by (rule createHar_query_fail [OF assms(2-5)]) (simp add: getQueryStrings_values assms(1))

lemma getHeadersArray_pathLevel_untyped:
  assumes ph: "placeholder param = Inl TypeError" and ty: "get param ''type'' = Inr t"
    and d: "derefParam openApi p = Inr param" and h: "param_in param ''header'' = Inr True"
    and op: "operationOf openApi path meth = Inr (pathItem, pathObj)"
    and mh: "mediaHeaders openApi pathObj = Inr hs0"
    and pl: "get pathItem ''parameters'' = Inr pathLevel"
    and l: "forin_values pathLevel = before @ p # after"
    and f: "foldE (pathLevelHeader openApi) before (hs0, []) = Inr hst0"
  shows "getHeadersArray openApi path meth = Inl TypeError"
proof -
  from foldE_reaches [OF f headerStep_untyped(1) [OF ph ty d h]]
  have "foldE (pathLevelHeader openApi) (forin_values pathLevel) (hs0, []) = Inl TypeError"
    unfolding l .
  then show ?thesis by (rule getHeadersArray_pathLevel_fails [OF op mh pl])
qed

lemma getHeadersArray_methodLevel_untyped:
  assumes ph: "placeholder param = Inl TypeError" and ty: "get param ''type'' = Inr t"
    and d: "derefParam openApi p = Inr param" and h: "param_in param ''header'' = Inr True"
    and op: "operationOf openApi path meth = Inr (pathItem, pathObj)"
    and mh: "mediaHeaders openApi pathObj = Inr hs0"
    and pl: "get pathItem ''parameters'' = Inr pathLevel"
    and f1: "foldE (pathLevelHeader openApi) (forin_values pathLevel) (hs0, []) = Inr st1"
    and ml: "get pathObj ''parameters'' = Inr methodLevel"
    and l: "forin_values methodLevel = before @ p # after"
    and f: "foldE (methodLevelHeader openApi) before st1 = Inr hst0"
  shows "getHeadersArray openApi path meth = Inl TypeError"
proof -
  from foldE_reaches [OF f headerStep_untyped(2) [OF ph ty d h]]
  have "foldE (methodLevelHeader openApi) (forin_values methodLevel) st1 = Inl TypeError"
    unfolding l .
  then show ?thesis by (rule getHeadersArray_methodLevel_fails [OF op mh pl f1 ml])
qed

text \<open>
  Claim C10. The placeholder of an \<^verbatim>\<open>in: query\<close> or \<^verbatim>\<open>in: header\<close> parameter is
  produced only if \<^verbatim>\<open>param.type\<close> or \<^verbatim>\<open>param.schema.type\<close> is defined. When
  \<^verbatim>\<open>param.type\<close> is undefined and the schema or its \<^verbatim>\<open>type\<close> is undefined, the
  placeholder raises a \<^verbatim>\<open>TypeError\<close>, and so does the value of a query parameter
  whatever the caller's values are, so also when they hold a value for the parameter. Then
  every iteration over the parameter raises, in both loops of \<^verbatim>\<open>getQueryStrings\<close> and
  in both loops of \<^verbatim>\<open>getHeadersArray\<close>; \<^verbatim>\<open>getQueryStrings\<close> (for parameter lists
  whose schemas need no resolution) and \<^verbatim>\<open>getHeadersArray\<close> raise when their loops
  reach the parameter, in the list of the path item or in that of the operation; and
  \<^verbatim>\<open>createHar\<close> raises when it gets as far as the function that raises.
\<close>

theorem placeholder_precondition:
  "(placeholder param = Inr v \<longrightarrow>
      (\<exists>t. get param ''type'' = Inr t \<and> t \<noteq> JUndef) \<or>
      (\<exists>schema t. get param ''schema'' = Inr schema \<and> get schema ''type'' = Inr t \<and>
         t \<noteq> JUndef)) \<and>
   (get param ''type'' = Inr JUndef \<and> get param ''schema'' = Inr schema \<and>
    (schema = JUndef \<or> get schema ''type'' = Inr JUndef) \<longrightarrow>
      placeholder param = Inl TypeError \<and>
      queryValue vals param = Inl TypeError \<and>
      (param_in param ''query'' = Inr True \<longrightarrow>
         pathLevelQuery vals qst param = Inl TypeError \<and>
         methodLevelQuery vals qst param = Inl TypeError \<and>
         (derefParam (doc s) p = Inr param \<and>
          getAt [''paths'', path, ''parameters''] (doc s) = Inr pathLevel \<and>
          params_resolved (doc s) pathLevel \<and>
          forin_values pathLevel = before @ p # after \<and>
          foldE (\<lambda>st p. bindE (derefParam (doc s) p)
                   (pathLevelQuery (if vals = JUndef then JObj [] else vals) st))
            before ([], []) = Inr reached \<longrightarrow>
            getQueryStrings path meth vals s = (Inl TypeError, s) \<and>
            (getBaseUrl (doc s) = Inr b \<and> getFullPath (doc s) path meth = Inr fp \<and>
             tostr b = Inr bs \<and> getHeadersArray (doc s) path meth = Inr hs \<longrightarrow>
               createHar sample stringify path meth vals s = (Inl TypeError, s))) \<and>
         (derefParam (doc s) p = Inr param \<and>
          getAt [''paths'', path, ''parameters''] (doc s) = Inr pathLevel \<and>
          params_resolved (doc s) pathLevel \<and>
          getAt [''paths'', path, meth, ''parameters''] (doc s) = Inr methodLevel \<and>
          params_resolved (doc s) methodLevel \<and>
          foldE (\<lambda>st p. bindE (derefParam (doc s) p)
                   (pathLevelQuery (if vals = JUndef then JObj [] else vals) st))
            (forin_values pathLevel) ([], []) = Inr pathQueries \<and>
          forin_values methodLevel = before @ p # after \<and>
          foldE (\<lambda>st p. bindE (derefParam (doc s) p)
                   (methodLevelQuery (if vals = JUndef then JObj [] else vals) st))
            before pathQueries = Inr reached \<longrightarrow>
            getQueryStrings path meth vals s = (Inl TypeError, s) \<and>
            (getBaseUrl (doc s) = Inr b \<and> getFullPath (doc s) path meth = Inr fp \<and>
             tostr b = Inr bs \<and> getHeadersArray (doc s) path meth = Inr hs \<longrightarrow>
               createHar sample stringify path meth vals s = (Inl TypeError, s)))) \<and>
      (derefParam openApi p = Inr param \<and> param_in param ''header'' = Inr True \<longrightarrow>
         pathLevelHeader openApi hst p = Inl TypeError \<and>
         methodLevelHeader openApi hst p = Inl TypeError \<and>
         (operationOf openApi path meth = Inr (pathItem, pathObj) \<and>
          mediaHeaders openApi pathObj = Inr media \<and>
          get pathItem ''parameters'' = Inr pathLevel \<and>
          forin_values pathLevel = before @ p # after \<and>
          foldE (pathLevelHeader openApi) before (media, []) = Inr hreached \<longrightarrow>
            getHeadersArray openApi path meth = Inl TypeError) \<and>
         (operationOf openApi path meth = Inr (pathItem, pathObj) \<and>
          mediaHeaders openApi pathObj = Inr media \<and>
          get pathItem ''parameters'' = Inr pathLevel \<and>
          foldE (pathLevelHeader openApi) (forin_values pathLevel) (media, []) = Inr pathHeaders \<and>
          get pathObj ''parameters'' = Inr methodLevel \<and>
          forin_values methodLevel = before @ p # after \<and>
          foldE (methodLevelHeader openApi) before pathHeaders = Inr hreached \<longrightarrow>
            getHeadersArray openApi path meth = Inl TypeError))) \<and>
   (getBaseUrl (doc s) = Inr b \<and> getFullPath (doc s) path meth = Inr fp \<and>
    tostr b = Inr bs \<and> getHeadersArray (doc s) path meth = Inl TypeError \<longrightarrow>
      createHar sample stringify path meth vals s = (Inl TypeError, s))"
proof -
  have typed: "(\<exists>t. get param ''type'' = Inr t \<and> t \<noteq> JUndef) \<or>
      (\<exists>schema t. get param ''schema'' = Inr schema \<and> get schema ''type'' = Inr t \<and>
         t \<noteq> JUndef)" if "placeholder param = Inr v"
    using placeholder_Inr [OF that] by (auto split: if_splits)
  have last: "createHar sample stringify path meth vals s = (Inl TypeError, s)"
    if "getBaseUrl (doc s) = Inr b \<and> getFullPath (doc s) path meth = Inr fp \<and>
        tostr b = Inr bs \<and> getHeadersArray (doc s) path meth = Inl TypeError"
    using that createHar_headers_fail [of s b path meth fp bs TypeError sample stringify vals]
    by blast
  have untyped: "placeholder param = Inl TypeError \<and>
      queryValue vals param = Inl TypeError \<and>
      (param_in param ''query'' = Inr True \<longrightarrow>
         pathLevelQuery vals qst param = Inl TypeError \<and>
         methodLevelQuery vals qst param = Inl TypeError \<and>
         (derefParam (doc s) p = Inr param \<and>
          getAt [''paths'', path, ''parameters''] (doc s) = Inr pathLevel \<and>
          params_resolved (doc s) pathLevel \<and>
          forin_values pathLevel = before @ p # after \<and>
          foldE (\<lambda>st p. bindE (derefParam (doc s) p)
                   (pathLevelQuery (if vals = JUndef then JObj [] else vals) st))
            before ([], []) = Inr reached \<longrightarrow>
            getQueryStrings path meth vals s = (Inl TypeError, s) \<and>
            (getBaseUrl (doc s) = Inr b \<and> getFullPath (doc s) path meth = Inr fp \<and>
             tostr b = Inr bs \<and> getHeadersArray (doc s) path meth = Inr hs \<longrightarrow>
               createHar sample stringify path meth vals s = (Inl TypeError, s))) \<and>
         (derefParam (doc s) p = Inr param \<and>
          getAt [''paths'', path, ''parameters''] (doc s) = Inr pathLevel \<and>
          params_resolved (doc s) pathLevel \<and>
          getAt [''paths'', path, meth, ''parameters''] (doc s) = Inr methodLevel \<and>
          params_resolved (doc s) methodLevel \<and>
          foldE (\<lambda>st p. bindE (derefParam (doc s) p)
                   (pathLevelQuery (if vals = JUndef then JObj [] else vals) st))
            (forin_values pathLevel) ([], []) = Inr pathQueries \<and>
          forin_values methodLevel = before @ p # after \<and>
          foldE (\<lambda>st p. bindE (derefParam (doc s) p)
                   (methodLevelQuery (if vals = JUndef then JObj [] else vals) st))
            before pathQueries = Inr reached \<longrightarrow>
            getQueryStrings path meth vals s = (Inl TypeError, s) \<and>
            (getBaseUrl (doc s) = Inr b \<and> getFullPath (doc s) path meth = Inr fp \<and>
             tostr b = Inr bs \<and> getHeadersArray (doc s) path meth = Inr hs \<longrightarrow>
               createHar sample stringify path meth vals s = (Inl TypeError, s)))) \<and>
      (derefParam openApi p = Inr param \<and> param_in param ''header'' = Inr True \<longrightarrow>
         pathLevelHeader openApi hst p = Inl TypeError \<and>
         methodLevelHeader openApi hst p = Inl TypeError \<and>
         (operationOf openApi path meth = Inr (pathItem, pathObj) \<and>
          mediaHeaders openApi pathObj = Inr media \<and>
          get pathItem ''parameters'' = Inr pathLevel \<and>
          forin_values pathLevel = before @ p # after \<and>
          foldE (pathLevelHeader openApi) before (media, []) = Inr hreached \<longrightarrow>
            getHeadersArray openApi path meth = Inl TypeError) \<and>
         (operationOf openApi path meth = Inr (pathItem, pathObj) \<and>
          mediaHeaders openApi pathObj = Inr media \<and>
          get pathItem ''parameters'' = Inr pathLevel \<and>
          foldE (pathLevelHeader openApi) (forin_values pathLevel) (media, []) = Inr pathHeaders \<and>
          get pathObj ''parameters'' = Inr methodLevel \<and>
          forin_values methodLevel = before @ p # after \<and>
          foldE (methodLevelHeader openApi) before pathHeaders = Inr hreached \<longrightarrow>
            getHeadersArray openApi path meth = Inl TypeError))"
    if u: "get param ''type'' = Inr JUndef \<and> get param ''schema'' = Inr schema \<and>
        (schema = JUndef \<or> get schema ''type'' = Inr JUndef)"
  proof -
    from u have ty: "get param ''type'' = Inr JUndef" by simp
    from u have ph: "placeholder param = Inl TypeError"
      by (intro placeholder_untyped) blast+
    then have qv: "queryValue vals param = Inl TypeError"
      by (simp add: queryValue_def)
    have query: "pathLevelQuery vals qst param = Inl TypeError \<and>
         methodLevelQuery vals qst param = Inl TypeError \<and>
         (derefParam (doc s) p = Inr param \<and>
          getAt [''paths'', path, ''parameters''] (doc s) = Inr pathLevel \<and>
          params_resolved (doc s) pathLevel \<and>
          forin_values pathLevel = before @ p # after \<and>
          foldE (\<lambda>st p. bindE (derefParam (doc s) p)
                   (pathLevelQuery (if vals = JUndef then JObj [] else vals) st))
            before ([], []) = Inr reached \<longrightarrow>
            getQueryStrings path meth vals s = (Inl TypeError, s) \<and>
            (getBaseUrl (doc s) = Inr b \<and> getFullPath (doc s) path meth = Inr fp \<and>
             tostr b = Inr bs \<and> getHeadersArray (doc s) path meth = Inr hs \<longrightarrow>
               createHar sample stringify path meth vals s = (Inl TypeError, s))) \<and>
         (derefParam (doc s) p = Inr param \<and>
          getAt [''paths'', path, ''parameters''] (doc s) = Inr pathLevel \<and>
          params_resolved (doc s) pathLevel \<and>
          getAt [''paths'', path, meth, ''parameters''] (doc s) = Inr methodLevel \<and>
          params_resolved (doc s) methodLevel \<and>
          foldE (\<lambda>st p. bindE (derefParam (doc s) p)
                   (pathLevelQuery (if vals = JUndef then JObj [] else vals) st))
            (forin_values pathLevel) ([], []) = Inr pathQueries \<and>
          forin_values methodLevel = before @ p # after \<and>
          foldE (\<lambda>st p. bindE (derefParam (doc s) p)
                   (methodLevelQuery (if vals = JUndef then JObj [] else vals) st))
            before pathQueries = Inr reached \<longrightarrow>
            getQueryStrings path meth vals s = (Inl TypeError, s) \<and>
            (getBaseUrl (doc s) = Inr b \<and> getFullPath (doc s) path meth = Inr fp \<and>
             tostr b = Inr bs \<and> getHeadersArray (doc s) path meth = Inr hs \<longrightarrow>
               createHar sample stringify path meth vals s = (Inl TypeError, s)))"
      if q: "param_in param ''query'' = Inr True"
    proof (intro conjI impI)
      show "pathLevelQuery vals qst param = Inl TypeError"
        by (rule queryStep_untyped(1) [OF ph q])
      show "methodLevelQuery vals qst param = Inl TypeError"
        by (rule queryStep_untyped(2) [OF ph q])
    next
      assume h: "derefParam (doc s) p = Inr param \<and>
          getAt [''paths'', path, ''parameters''] (doc s) = Inr pathLevel \<and>
          params_resolved (doc s) pathLevel \<and>
          forin_values pathLevel = before @ p # after \<and>
          foldE (\<lambda>st p. bindE (derefParam (doc s) p)
                   (pathLevelQuery (if vals = JUndef then JObj [] else vals) st))
            before ([], []) = Inr reached"
      show g: "getQueryStrings path meth vals s = (Inl TypeError, s)"
        using h by (intro getQueryStrings_pathLevel_untyped [OF ph q, of s p path pathLevel before after
              vals reached]) blast+
      assume "getBaseUrl (doc s) = Inr b \<and> getFullPath (doc s) path meth = Inr fp \<and>
             tostr b = Inr bs \<and> getHeadersArray (doc s) path meth = Inr hs"
      then show "createHar sample stringify path meth vals s = (Inl TypeError, s)"
        by (intro createHar_query_fails [OF g]) blast+
    next
      assume h: "derefParam (doc s) p = Inr param \<and>
          getAt [''paths'', path, ''parameters''] (doc s) = Inr pathLevel \<and>
          params_resolved (doc s) pathLevel \<and>
          getAt [''paths'', path, meth, ''parameters''] (doc s) = Inr methodLevel \<and>
          params_resolved (doc s) methodLevel \<and>
          foldE (\<lambda>st p. bindE (derefParam (doc s) p)
                   (pathLevelQuery (if vals = JUndef then JObj [] else vals) st))
            (forin_values pathLevel) ([], []) = Inr pathQueries \<and>
          forin_values methodLevel = before @ p # after \<and>
          foldE (\<lambda>st p. bindE (derefParam (doc s) p)
                   (methodLevelQuery (if vals = JUndef then JObj [] else vals) st))
            before pathQueries = Inr reached"
      show g: "getQueryStrings path meth vals s = (Inl TypeError, s)"
        using h by (intro getQueryStrings_methodLevel_untyped [OF ph q, of s p path pathLevel meth
              methodLevel vals pathQueries before after reached]) blast+
      assume "getBaseUrl (doc s) = Inr b \<and> getFullPath (doc s) path meth = Inr fp \<and>
             tostr b = Inr bs \<and> getHeadersArray (doc s) path meth = Inr hs"
      then show "createHar sample stringify path meth vals s = (Inl TypeError, s)"
        by (intro createHar_query_fails [OF g]) blast+
    qed
    have header: "pathLevelHeader openApi hst p = Inl TypeError \<and>
         methodLevelHeader openApi hst p = Inl TypeError \<and>
         (operationOf openApi path meth = Inr (pathItem, pathObj) \<and>
          mediaHeaders openApi pathObj = Inr media \<and>
          get pathItem ''parameters'' = Inr pathLevel \<and>
          forin_values pathLevel = before @ p # after \<and>
          foldE (pathLevelHeader openApi) before (media, []) = Inr hreached \<longrightarrow>
            getHeadersArray openApi path meth = Inl TypeError) \<and>
         (operationOf openApi path meth = Inr (pathItem, pathObj) \<and>
          mediaHeaders openApi pathObj = Inr media \<and>
          get pathItem ''parameters'' = Inr pathLevel \<and>
          foldE (pathLevelHeader openApi) (forin_values pathLevel) (media, []) = Inr pathHeaders \<and>
          get pathObj ''parameters'' = Inr methodLevel \<and>
          forin_values methodLevel = before @ p # after \<and>
          foldE (methodLevelHeader openApi) before pathHeaders = Inr hreached \<longrightarrow>
            getHeadersArray openApi path meth = Inl TypeError)"
      if dh: "derefParam openApi p = Inr param \<and> param_in param ''header'' = Inr True"
    proof (intro conjI impI)
      from dh have d: "derefParam openApi p = Inr param"
        and h: "param_in param ''header'' = Inr True" by simp_all
      show "pathLevelHeader openApi hst p = Inl TypeError"
        by (rule headerStep_untyped(1) [OF ph ty d h])
      show "methodLevelHeader openApi hst p = Inl TypeError"
        by (rule headerStep_untyped(2) [OF ph ty d h])
      {
        assume a: "operationOf openApi path meth = Inr (pathItem, pathObj) \<and>
          mediaHeaders openApi pathObj = Inr media \<and>
          get pathItem ''parameters'' = Inr pathLevel \<and>
          forin_values pathLevel = before @ p # after \<and>
          foldE (pathLevelHeader openApi) before (media, []) = Inr hreached"
        show "getHeadersArray openApi path meth = Inl TypeError"
          using a by (intro getHeadersArray_pathLevel_untyped [OF ph ty d h, of path meth pathItem pathObj
                media pathLevel before after hreached]) blast+
      }
      {
        assume a: "operationOf openApi path meth = Inr (pathItem, pathObj) \<and>
          mediaHeaders openApi pathObj = Inr media \<and>
          get pathItem ''parameters'' = Inr pathLevel \<and>
          foldE (pathLevelHeader openApi) (forin_values pathLevel) (media, []) = Inr pathHeaders \<and>
          get pathObj ''parameters'' = Inr methodLevel \<and>
          forin_values methodLevel = before @ p # after \<and>
          foldE (methodLevelHeader openApi) before pathHeaders = Inr hreached"
        show "getHeadersArray openApi path meth = Inl TypeError"
          using a by (intro getHeadersArray_methodLevel_untyped [OF ph ty d h, of path meth pathItem
                pathObj media pathLevel pathHeaders methodLevel before after hreached]) blast+
      }
    qed
    from ph qv query header show ?thesis by blast
  qed
  from typed untyped last show ?thesis by blast
qed


theorem placeholder_precondition_witness:
  "queryValue (JObj [(''q'', JStr ''kittens'')])
     (JObj [(''name'', JStr ''q''), (''in'', JStr ''query'')]) = Inl TypeError \<and>
   createHar (\<lambda>schema openApi. Inr JNull) (\<lambda>sample. JStr ''null'') ''/search'' ''get''
     (JObj [(''q'', JStr ''kittens'')])
     (loaded (JObj [(''host'', JStr ''api.example.com''),
        (''paths'', JObj [(''/search'', JObj [(''get'', JObj [(''parameters'',
           JArr [JObj [(''name'', JStr ''q''), (''in'', JStr ''query'')]] [])])])])]))
   = (Inl TypeError,
      loaded (JObj [(''host'', JStr ''api.example.com''),
        (''paths'', JObj [(''/search'', JObj [(''get'', JObj [(''parameters'',
           JArr [JObj [(''name'', JStr ''q''), (''in'', JStr ''query'')]] [])])])])])) \<and>
   getHeadersArray
     (JObj [(''host'', JStr ''api.example.com''),
        (''paths'', JObj [(''/search'', JObj [(''get'', JObj [(''parameters'',
           JArr [JObj [(''name'', JStr ''X-Trace''), (''in'', JStr ''header''),
                       (''schema'', JObj [])]] [])])])])])
     ''/search'' ''get'' = Inl TypeError \<and>
   createHar (\<lambda>schema openApi. Inr JNull) (\<lambda>sample. JStr ''null'') ''/search'' ''get'' JUndef
     (loaded (JObj [(''host'', JStr ''api.example.com''),
        (''paths'', JObj [(''/search'', JObj [(''get'', JObj [(''parameters'',
           JArr [JObj [(''name'', JStr ''X-Trace''), (''in'', JStr ''header''),
                       (''schema'', JObj [])]] [])])])])]))
   = (Inl TypeError,
      loaded (JObj [(''host'', JStr ''api.example.com''),
        (''paths'', JObj [(''/search'', JObj [(''get'', JObj [(''parameters'',
           JArr [JObj [(''name'', JStr ''X-Trace''), (''in'', JStr ''header''),
                       (''schema'', JObj [])]] [])])])])]))"
proof -
  let ?V = "JObj [(''q'', JStr ''kittens'')]"
  let ?Q = "JObj [(''name'', JStr ''q''), (''in'', JStr ''query'')]"
  let ?H = "JObj [(''name'', JStr ''X-Trace''), (''in'', JStr ''header''), (''schema'', JObj [])]"
  let ?MQ = "JArr [?Q] []"
  let ?MH = "JArr [?H] []"
  let ?opQ = "JObj [(''parameters'', ?MQ)]"
  let ?opH = "JObj [(''parameters'', ?MH)]"
  let ?itemH = "JObj [(''get'', ?opH)]"
  let ?DQ = "JObj [(''host'', JStr ''api.example.com''),
        (''paths'', JObj [(''/search'', JObj [(''get'', ?opQ)])])]"
  let ?DH = "JObj [(''host'', JStr ''api.example.com''), (''paths'', JObj [(''/search'', ?itemH)])]"
  let ?S = "\<lambda>schema openApi :: jv. Inr JNull :: error + jv"
  let ?J = "\<lambda>sample :: jv. JStr ''null''"
  have uq: "get ?Q ''type'' = Inr JUndef \<and> get ?Q ''schema'' = Inr JUndef \<and>
      (JUndef = JUndef \<or> get JUndef ''type'' = Inr JUndef)"
    by code_simp
  have iq: "param_in ?Q ''query'' = Inr True"
    by code_simp
  have hq: "derefParam (doc (loaded ?DQ)) ?Q = Inr ?Q \<and>
          getAt [''paths'', ''/search'', ''parameters''] (doc (loaded ?DQ)) = Inr JUndef \<and>
          params_resolved (doc (loaded ?DQ)) JUndef \<and>
          getAt [''paths'', ''/search'', ''get'', ''parameters''] (doc (loaded ?DQ)) = Inr ?MQ \<and>
          params_resolved (doc (loaded ?DQ)) ?MQ \<and>
          foldE (\<lambda>st p. bindE (derefParam (doc (loaded ?DQ)) p)
                   (pathLevelQuery (if ?V = JUndef then JObj [] else ?V) st))
            (forin_values JUndef) ([], []) = Inr ([], []) \<and>
          forin_values ?MQ = [] @ ?Q # [] \<and>
          foldE (\<lambda>st p. bindE (derefParam (doc (loaded ?DQ)) p)
                   (methodLevelQuery (if ?V = JUndef then JObj [] else ?V) st))
            [] ([], []) = Inr ([], [])"
    by code_simp
  have pq: "getBaseUrl (doc (loaded ?DQ)) = Inr (JStr ''http://api.example.com'') \<and>
      getFullPath (doc (loaded ?DQ)) ''/search'' ''get'' = Inr ''/search'' \<and>
      tostr (JStr ''http://api.example.com'') = Inr ''http://api.example.com'' \<and>
      getHeadersArray (doc (loaded ?DQ)) ''/search'' ''get'' = Inr []"
    by code_simp
  have uh: "get ?H ''type'' = Inr JUndef \<and> get ?H ''schema'' = Inr (JObj []) \<and>
      (JObj [] = JUndef \<or> get (JObj []) ''type'' = Inr JUndef)"
    by code_simp
  have ih: "derefParam ?DH ?H = Inr ?H \<and> param_in ?H ''header'' = Inr True"
    by code_simp
  have hh: "operationOf ?DH ''/search'' ''get'' = Inr (?itemH, ?opH) \<and>
          mediaHeaders ?DH ?opH = Inr [] \<and>
          get ?itemH ''parameters'' = Inr JUndef \<and>
          foldE (pathLevelHeader ?DH) (forin_values JUndef) ([], []) = Inr ([], []) \<and>
          get ?opH ''parameters'' = Inr ?MH \<and>
          forin_values ?MH = [] @ ?H # [] \<and>
          foldE (methodLevelHeader ?DH) [] ([], []) = Inr ([], [])"
    by code_simp
  have d: "doc (loaded ?DH) = ?DH" by (simp add: loaded_def)
  have pb: "getBaseUrl ?DH = Inr (JStr ''http://api.example.com'')"
      "getFullPath ?DH ''/search'' ''get'' = Inr ''/search''"
      "tostr (JStr ''http://api.example.com'') = Inr ''http://api.example.com''"
    by code_simp+
  note q = placeholder_precondition [where param = ?Q and schema = JUndef and vals = ?V
      and s = "loaded ?DQ" and p = ?Q and path = "''/search''" and meth = "''get''"
      and pathLevel = JUndef and methodLevel = ?MQ and pathQueries = "([], [])" and before = "[]"
      and after = "[]" and reached = "([], [])" and b = "JStr ''http://api.example.com''"
      and fp = "''/search''" and bs = "''http://api.example.com''" and hs = "[]"
      and sample = ?S and stringify = ?J,
      THEN conjunct2, THEN conjunct1, rule_format, OF uq]
  note c1 = q [THEN conjunct2, THEN conjunct1]
  note qq = mp [OF q [THEN conjunct2, THEN conjunct2, THEN conjunct1] iq]
  note qm = mp [OF qq [THEN conjunct2, THEN conjunct2, THEN conjunct2] hq]
  note c2 = mp [OF qm [THEN conjunct2] pq]
  note h = placeholder_precondition [where param = ?H and schema = "JObj []"
      and openApi = ?DH and p = ?H and path = "''/search''" and meth = "''get''"
      and pathItem = ?itemH and pathObj = ?opH and media = "[]" and pathLevel = JUndef
      and pathHeaders = "([], [])" and methodLevel = ?MH and before = "[]" and after = "[]"
      and hreached = "([], [])", THEN conjunct2, THEN conjunct1, rule_format, OF uh]
  note hm = mp [OF h [THEN conjunct2, THEN conjunct2, THEN conjunct2] ih]
  note c3 = mp [OF hm [THEN conjunct2, THEN conjunct2, THEN conjunct2] hh]
  have ph: "getBaseUrl (doc (loaded ?DH)) = Inr (JStr ''http://api.example.com'') \<and>
      getFullPath (doc (loaded ?DH)) ''/search'' ''get'' = Inr ''/search'' \<and>
      tostr (JStr ''http://api.example.com'') = Inr ''http://api.example.com'' \<and>
      getHeadersArray (doc (loaded ?DH)) ''/search'' ''get'' = Inl TypeError"
    unfolding d using pb c3 by blast
  note c4 = placeholder_precondition [where s = "loaded ?DH" and path = "''/search''"
      and meth = "''get''" and b = "JStr ''http://api.example.com''" and fp = "''/search''"
      and bs = "''http://api.example.com''" and sample = ?S and stringify = ?J
      and vals = JUndef, THEN conjunct2, THEN conjunct2, rule_format, OF ph]
  show ?thesis
    by (intro conjI) (rule c1 c2 c3 c4)+
qed

section \<open>Properties of the Payload Builder\<close>

lemma bodyParam_sampler_failure:
  assumes "param_in param ''body'' = Inr True" and "get param ''schema'' = Inr schema"
    and "schema \<noteq> JUndef" and "sample schema (doc s) = Inl err"
  shows "bodyParam sample stringify payload param s
    = (Inr (Return None), s\<lparr>logged := logged s @ [err]\<rparr>)"
  using assms by (simp add: bodyParam_def bindS_def readS_def logS_def returnS_def)

lemma contentEntry_sampler_failure:
  assumes "get requestBody ''schema'' = Inr schema" and "truthy schema"
    and "i = ''multipart/form-data'' \<or> i = ''application/json'' \<or> i = ''*/*''"
    and "sample schema openApi = Inl err"
  shows "contentEntry sample stringify openApi payload (i, requestBody) = Inl err"
  using assms by (auto simp: contentEntry_def)

text \<open>
  Claim C5 does not hold of the code. With a sampler that raises, an operation whose payload
  comes from an OpenAPI 3 \<^verbatim>\<open>requestBody\<close> makes \<^verbatim>\<open>getPayload\<close> raise the sampler's
  error, with nothing logged, and \<^verbatim>\<open>createHar\<close> raises it to its caller: the two
  calls of the sampler in the loop over \<^verbatim>\<open>requestBody.content\<close> stand in no
  \<^verbatim>\<open>try\<close> block. The same schema in an \<^verbatim>\<open>in: body\<close> parameter is sampled inside
  \<^verbatim>\<open>try ... catch (err) { console.log(err); return null }\<close>: there the error is logged,
  \<^verbatim>\<open>getPayload\<close> returns \<^verbatim>\<open>null\<close> and \<^verbatim>\<open>createHar\<close> returns a request without
  \<^verbatim>\<open>postData\<close>.
\<close>

theorem getPayload_requestBody_sampler_failure:
  "getPayload (\<lambda>schema openApi. Inl SamplerError) (\<lambda>sample. JStr ''{}'') ''/pets'' ''post''
     (loaded (JObj [(''host'', JStr ''api.example.com''),
        (''paths'', JObj [(''/pets'', JObj [(''post'', JObj [(''requestBody'', JObj
          [(''content'', JObj [(''application/json'', JObj
             [(''schema'', JObj [(''type'', JStr ''object'')])])])])])])])]))
   = (Inl SamplerError,
      loaded (JObj [(''host'', JStr ''api.example.com''),
        (''paths'', JObj [(''/pets'', JObj [(''post'', JObj [(''requestBody'', JObj
          [(''content'', JObj [(''application/json'', JObj
             [(''schema'', JObj [(''type'', JStr ''object'')])])])])])])])])) \<and>
   createHar (\<lambda>schema openApi. Inl SamplerError) (\<lambda>sample. JStr ''{}'') ''/pets'' ''post''
     JUndef
     (loaded (JObj [(''host'', JStr ''api.example.com''),
        (''paths'', JObj [(''/pets'', JObj [(''post'', JObj [(''requestBody'', JObj
          [(''content'', JObj [(''application/json'', JObj
             [(''schema'', JObj [(''type'', JStr ''object'')])])])])])])])]))
   = (Inl SamplerError,
      loaded (JObj [(''host'', JStr ''api.example.com''),
        (''paths'', JObj [(''/pets'', JObj [(''post'', JObj [(''requestBody'', JObj
          [(''content'', JObj [(''application/json'', JObj
             [(''schema'', JObj [(''type'', JStr ''object'')])])])])])])])])) \<and>
   getPayload (\<lambda>schema openApi. Inl SamplerError) (\<lambda>sample. JStr ''{}'') ''/pets'' ''post''
     (loaded (JObj [(''host'', JStr ''api.example.com''),
        (''paths'', JObj [(''/pets'', JObj [(''post'', JObj [(''parameters'', JArr
          [JObj [(''name'', JStr ''pet''), (''in'', JStr ''body''),
                 (''schema'', JObj [(''type'', JStr ''object'')])]] [])])])])]))
   = (Inr None,
      (loaded (JObj [(''host'', JStr ''api.example.com''),
        (''paths'', JObj [(''/pets'', JObj [(''post'', JObj [(''parameters'', JArr
          [JObj [(''name'', JStr ''pet''), (''in'', JStr ''body''),
                 (''schema'', JObj [(''type'', JStr ''object'')])]] [])])])])]))
        \<lparr>logged := [SamplerError]\<rparr>)"
  by code_simp

section \<open>Properties of the Request Assembler\<close>






















section \<open>Properties of the Document-wide Synthesis\<close>











lemma openApiToHarList_result:
  "(harEntries sample stringify s = (Inr harList, s') \<longrightarrow>
      openApiToHarList sample stringify s = (Some harList, s')) \<and>
   (harEntries sample stringify s = (Inl e, s') \<longrightarrow>
      openApiToHarList sample stringify s = (None, s'\<lparr>logged := logged s' @ [e]\<rparr>))"
  by (simp add: openApiToHarList_def)







end
